theory Spec2Isabelle
  imports Complex_Main
begin

section \<open>Python values, dictionaries and exceptions\<close>

text \<open>
  The service of \<^verbatim>\<open>app.py\<close> computes on Python and NumPy floats. Finite doubles are
  idealised as real numbers, and the arithmetic of the features, margins and profits is
  the exact one. The price grid is the exception: which points it has depends on how the
  tolerance and the length are rounded, so \<^verbatim>\<open>np.arange\<close> and the sum that gives its upper
  bound round every operation to the nearest double. The non-finite results that NumPy
  produces when it divides by zero (\<^verbatim>\<open>inf\<close>, \<^verbatim>\<open>-inf\<close>, \<^verbatim>\<open>nan\<close>) are kept as values of their
  own, since the optimizer stores them in its rows.
\<close>

datatype pyval = Num real | PosInf | NegInf | NaN | Str string | Null

text \<open>
  A \<^verbatim>\<open>dict\<close> keeps its keys in insertion order, and a DataFrame built from dicts takes
  its columns in that order: a dict is an association list with distinct keys.
\<close>

type_synonym pydict = "(string \<times> pyval) list"

type_synonym dataframe = "pydict list"

text \<open>
  What a handler can raise. \<^verbatim>\<open>HTTPException\<close> is turned into a response with its status
  code by the framework; every other exception is unhandled (a 500 response).
\<close>

datatype error =
    HTTPException nat string
  | KeyError string
  | TypeError
  | ZeroDivisionError
  | ValueError
  | IndexError

fun unhandled :: "error \<Rightarrow> bool" where
  "unhandled (HTTPException code detail) = False"
| "unhandled e = True"

text \<open>\<^verbatim>\<open>d[k] = v\<close>: an existing key keeps its position, a new key goes last.\<close>

fun dict_set :: "pydict \<Rightarrow> string \<Rightarrow> pyval \<Rightarrow> pydict" where
  "dict_set [] k v = [(k, v)]"
| "dict_set ((k', v') # d) k v =
     (if k' = k then (k, v) # d else (k', v') # dict_set d k v)"

text \<open>\<^verbatim>\<open>d.get(k, default)\<close>\<close>

definition dict_get :: "pydict \<Rightarrow> string \<Rightarrow> pyval \<Rightarrow> pyval" where
  "dict_get d k dflt = (case map_of d k of None \<Rightarrow> dflt | Some v \<Rightarrow> v)"

text \<open>\<^verbatim>\<open>d[k]\<close>\<close>

definition dict_getitem :: "pydict \<Rightarrow> string \<Rightarrow> error + pyval" where
  "dict_getitem d k = (case map_of d k of None \<Rightarrow> Inl (KeyError k) | Some v \<Rightarrow> Inr v)"

text \<open>\<^verbatim>\<open>xs[i]\<close> for a non-negative index.\<close>

definition py_index :: "'a list \<Rightarrow> nat \<Rightarrow> error + 'a" where
  "py_index xs i = (if i < length xs then Inr (xs ! i) else Inl IndexError)"

subsection \<open>Float arithmetic\<close>

fun is_float :: "pyval \<Rightarrow> bool" where
  "is_float (Str s) = False"
| "is_float Null = False"
| "is_float v = True"

text \<open>\<^verbatim>\<open>v + c\<close> for a finite float constant \<open>c\<close>.\<close>

fun float_add :: "pyval \<Rightarrow> real \<Rightarrow> error + pyval" where
  "float_add (Num x) c = Inr (Num (x + c))"
| "float_add (Str s) c = Inl TypeError"
| "float_add Null c = Inl TypeError"
| "float_add v c = Inr v"

text \<open>The quotient of two floats whose divisor is not zero.\<close>

fun float_quot :: "pyval \<Rightarrow> pyval \<Rightarrow> pyval" where
  "float_quot (Num x) (Num y) = Num (x / y)"
| "float_quot (Num x) PosInf = Num 0"
| "float_quot (Num x) NegInf = Num 0"
| "float_quot PosInf (Num y) = (if 0 < y then PosInf else NegInf)"
| "float_quot NegInf (Num y) = (if 0 < y then NegInf else PosInf)"
| "float_quot a d = NaN"

text \<open>
  \<^verbatim>\<open>a / d\<close> on Python objects, \<open>d\<close> a float: Python raises \<^verbatim>\<open>ZeroDivisionError\<close> on a
  zero divisor.
\<close>

definition py_truediv :: "pyval \<Rightarrow> pyval \<Rightarrow> error + pyval" where
  "py_truediv a d =
     (if is_float a \<and> is_float d
      then (if d = Num 0 then Inl ZeroDivisionError else Inr (float_quot a d))
      else Inl TypeError)"

text \<open>
  \<^verbatim>\<open>p / d\<close> for a \<^verbatim>\<open>numpy.float64\<close> \<open>p\<close>: NumPy does not raise on a zero divisor, the
  quotient is \<^verbatim>\<open>inf\<close>, \<^verbatim>\<open>-inf\<close> or \<^verbatim>\<open>nan\<close> by the sign of \<open>p\<close>.
\<close>

definition np_quot :: "real \<Rightarrow> real \<Rightarrow> pyval" where
  "np_quot p y =
     (if y = 0 then (if 0 < p then PosInf else if p < 0 then NegInf else NaN)
      else Num (p / y))"

fun np_truediv :: "real \<Rightarrow> pyval \<Rightarrow> error + pyval" where
  "np_truediv p (Num y) = Inr (np_quot p y)"
| "np_truediv p (Str s) = Inl TypeError"
| "np_truediv p Null = Inl TypeError"
| "np_truediv p d = Inr (float_quot (Num p) d)"

text \<open>\<^verbatim>\<open>numpy.expm1\<close>\<close>

definition expm1 :: "real \<Rightarrow> real" where
  "expm1 x = exp x - 1"

subsection \<open>Rounding to a double\<close>

text \<open>
  Rounding to the nearest integer, a tie going to the even one.
\<close>

definition round_half_even :: "real \<Rightarrow> int" where
  "round_half_even q =
     (if q - of_int \<lfloor>q\<rfloor> < 1 / 2 then \<lfloor>q\<rfloor>
      else if 1 / 2 < q - of_int \<lfloor>q\<rfloor> then \<lfloor>q\<rfloor> + 1
      else if even \<lfloor>q\<rfloor> then \<lfloor>q\<rfloor> else \<lfloor>q\<rfloor> + 1)"

text \<open>
  The double nearest to a real: 53 significant bits, ties to even. The exponent range is
  not bounded (no overflow to \<^verbatim>\<open>inf\<close>, no subnormals).
\<close>

definition to_double :: "real \<Rightarrow> real" where
  "to_double x =
     (if x = 0 then 0
      else of_int (round_half_even (x / 2 powr (of_int \<lfloor>log 2 \<bar>x\<bar>\<rfloor> - 52)))
             * 2 powr (of_int \<lfloor>log 2 \<bar>x\<bar>\<rfloor> - 52))"

text \<open>
  \<^verbatim>\<open>numpy.arange(start, stop, step)\<close> on Python floats. The length is the ceiling of
  the double quotient \<open>(stop - start) / step\<close> (that division raises when \<open>step\<close> is
  zero), and there is no element when it is not positive. Element 0 is \<open>start\<close>, element 1
  is the double sum \<open>start + step\<close>, and element \<open>i\<close> from 2 on is \<open>start + i * delta\<close>
  in double arithmetic, \<open>delta\<close> being element 1 minus element 0.
\<close>

definition np_arange :: "real \<Rightarrow> real \<Rightarrow> real \<Rightarrow> error + real list" where
  "np_arange start stop step =
     (if step = 0 then Inl ZeroDivisionError
      else (let n = nat \<lceil>to_double (to_double (stop - start) / step)\<rceil>;
                next = to_double (start + step);
                delta = to_double (next - start)
            in Inr (map (\<lambda>i. if i = 0 then start
                             else if i = 1 then next
                             else to_double (start + to_double (real i * delta)))
                      [0 ..< n])))"

text \<open>
  \<^verbatim>\<open>numpy.argmax\<close>: the index of the first occurrence of the maximum; it raises
  \<^verbatim>\<open>ValueError\<close> on an empty array. The scan keeps the running maximum \<open>mp\<close> and its
  index \<open>mi\<close>, and moves only on a strictly greater element.
\<close>

fun argmax_scan :: "real list \<Rightarrow> nat \<Rightarrow> real \<Rightarrow> nat \<Rightarrow> nat" where
  "argmax_scan [] i mp mi = mi"
| "argmax_scan (x # xs) i mp mi =
     (if mp < x then argmax_scan xs (Suc i) x i else argmax_scan xs (Suc i) mp mi)"

definition np_argmax :: "real list \<Rightarrow> error + nat" where
  "np_argmax xs = (case xs of [] \<Rightarrow> Inl ValueError | x # ys \<Rightarrow> Inr (argmax_scan ys 1 x 0))"

section \<open>Model, metadata and their lazy loading\<close>

text \<open>
  The fitted pipeline is opaque. Its \<^verbatim>\<open>predict\<close> either raises on the table it is given
  (a pipeline that validates its input does so on a table without rows or on a cell that
  is not finite) or returns one log-quantity per row, each row scored on its own. A model
  is therefore what it raises on a table, if anything, and its score of a row.
\<close>

record model =
  rejects :: "dataframe \<Rightarrow> error option"
  score :: "pydict \<Rightarrow> real"

definition model_predict :: "model \<Rightarrow> dataframe \<Rightarrow> error + real list" where
  "model_predict m df =
     (case rejects m df of Some e \<Rightarrow> Inl e | None \<Rightarrow> Inr (map (score m) df))"

text \<open>
  The metadata JSON object, as far as \<^verbatim>\<open>app.py\<close> reads it: the keys \<^verbatim>\<open>num_cols\<close> and
  \<^verbatim>\<open>cat_cols\<close>, each of which may be missing.
\<close>

record metadata =
  num_cols :: "string list option"
  cat_cols :: "string list option"

text \<open>
  What is found at \<^verbatim>\<open>MODEL_PATH\<close> and \<^verbatim>\<open>METADATA_PATH\<close> when \<^verbatim>\<open>try_load_model\<close> runs:
  no file, a file whose loading raises, or a file that loads.
\<close>

datatype 'a stored = Missing | Unreadable | Content 'a

record filesystem =
  model_file :: "model stored"
  metadata_file :: "metadata stored"

text \<open>
  The exception of a failed load is caught: a model that fails to load leaves both values
  \<^verbatim>\<open>None\<close> (the metadata is not read any more), metadata that fails to load leaves the
  model as loaded.
\<close>

definition try_load_model :: "filesystem \<Rightarrow> model option \<times> metadata option" where
  "try_load_model fs =
     (case model_file fs of
        Unreadable \<Rightarrow> (None, None)
      | Missing \<Rightarrow>
          (case metadata_file fs of Content md \<Rightarrow> (None, Some md) | _ \<Rightarrow> (None, None))
      | Content m \<Rightarrow>
          (case metadata_file fs of Content md \<Rightarrow> (Some m, Some md) | _ \<Rightarrow> (Some m, None)))"

text \<open>The module's globals \<^verbatim>\<open>MODEL\<close> and \<^verbatim>\<open>METADATA\<close>, both \<^verbatim>\<open>None\<close> at import.\<close>

record globals =
  MODEL :: "model option"
  METADATA :: "metadata option"

definition initial_globals :: globals where
  "initial_globals = \<lparr>MODEL = None, METADATA = None\<rparr>"

definition get_model_and_metadata ::
  "filesystem \<Rightarrow> globals \<Rightarrow> (model option \<times> metadata option) \<times> globals" where
  "get_model_and_metadata fs g =
     (if MODEL g = None \<or> METADATA g = None
      then (let (m, md) = try_load_model fs
            in ((m, md), \<lparr>MODEL = m, METADATA = md\<rparr>))
      else ((MODEL g, METADATA g), g))"

text \<open>
  A run of calls, the \<open>i\<close>-th one seeing the files as they are at that moment; it returns
  what each call returned.
\<close>

fun get_repeatedly ::
  "filesystem list \<Rightarrow> globals \<Rightarrow> (model option \<times> metadata option) list" where
  "get_repeatedly [] g = []"
| "get_repeatedly (fs # fss) g =
     (let (r, g') = get_model_and_metadata fs g in r # get_repeatedly fss g')"

section \<open>Requests and the feature builder\<close>

record PredictRequest =
  unit_price :: real
  comp_1 :: real
  comp_2 :: real
  comp_3 :: real
  freight_price :: real
  product_category_name :: "string option"

text \<open>\<^verbatim>\<open>req.dict()\<close>\<close>

definition req_dict :: "PredictRequest \<Rightarrow> pydict" where
  "req_dict req =
     [(''unit_price'', Num (unit_price req)),
      (''comp_1'', Num (comp_1 req)),
      (''comp_2'', Num (comp_2 req)),
      (''comp_3'', Num (comp_3 req)),
      (''freight_price'', Num (freight_price req)),
      (''product_category_name'',
         (case product_category_name req of None \<Rightarrow> Null | Some s \<Rightarrow> Str s))]"

text \<open>
  One ratio line of \<^verbatim>\<open>make_input_df\<close>:
  \<^verbatim>\<open>p[ratio] = p['unit_price'] / (p[ckey] + 1e-6)\<close>.
\<close>

definition set_ratio :: "string \<Rightarrow> string \<Rightarrow> pydict \<Rightarrow> error + pydict" where
  "set_ratio ratio ckey p =
     (case dict_getitem p ''unit_price'' of Inl e \<Rightarrow> Inl e | Inr u \<Rightarrow>
      (case dict_getitem p ckey of Inl e \<Rightarrow> Inl e | Inr c \<Rightarrow>
       (case float_add c 0.000001 of Inl e \<Rightarrow> Inl e | Inr d \<Rightarrow>
        (case py_truediv u d of Inl e \<Rightarrow> Inl e | Inr q \<Rightarrow>
           Inr (dict_set p ratio q)))))"

text \<open>The three ratio lines, on a copy of the payload.\<close>

definition add_ratios :: "pydict \<Rightarrow> error + pydict" where
  "add_ratios payload =
     (case set_ratio ''price_ratio_comp1'' ''comp_1'' payload of Inl e \<Rightarrow> Inl e | Inr p1 \<Rightarrow>
      (case set_ratio ''price_ratio_comp2'' ''comp_2'' p1 of Inl e \<Rightarrow> Inl e | Inr p2 \<Rightarrow>
         set_ratio ''price_ratio_comp3'' ''comp_3'' p2))"

text \<open>
  \<^verbatim>\<open>{k: p.get(k, 0) for k in num_cols}\<close> followed by
  \<^verbatim>\<open>for c in cat_cols: row[c] = p.get(c)\<close>.
\<close>

definition ordered_row :: "string list \<Rightarrow> string list \<Rightarrow> pydict \<Rightarrow> pydict" where
  "ordered_row ncs ccs p =
     fold (\<lambda>c row. dict_set row c (dict_get p c Null)) ccs
       (fold (\<lambda>k row. dict_set row k (dict_get p k (Num 0))) ncs [])"

text \<open>\<^verbatim>\<open>make_input_df\<close> reads the global \<^verbatim>\<open>METADATA\<close>; it returns a one-row table.\<close>

definition make_input_df :: "globals \<Rightarrow> pydict \<Rightarrow> error + dataframe" where
  "make_input_df g payload =
     (case add_ratios payload of Inl e \<Rightarrow> Inl e | Inr p \<Rightarrow>
      (case METADATA g of
         None \<Rightarrow> Inr [p]
       | Some md \<Rightarrow>
          (case num_cols md of
             None \<Rightarrow> Inr [p]
           | Some ncs \<Rightarrow>
               Inr [ordered_row ncs (case cat_cols md of None \<Rightarrow> [] | Some ccs \<Rightarrow> ccs) p])))"

section \<open>The prediction service\<close>

record PredictionResult =
  predicted_qty :: real
  predicted_profit :: real

definition model_not_loaded :: error where
  "model_not_loaded = HTTPException 503 ''Model not loaded''"

text \<open>\<open>COGS\<close> is read from the environment at import; it is a parameter here.\<close>

definition predict ::
  "real \<Rightarrow> filesystem \<Rightarrow> globals \<Rightarrow> PredictRequest \<Rightarrow> (error + PredictionResult) \<times> globals" where
  "predict COGS fs g req =
     (let ((model, md), g') = get_model_and_metadata fs g in
      (case model of
         None \<Rightarrow> (Inl model_not_loaded, g')
       | Some m \<Rightarrow>
          (case make_input_df g' (req_dict req) of Inl e \<Rightarrow> (Inl e, g') | Inr df \<Rightarrow>
           (case model_predict m df of Inl e \<Rightarrow> (Inl e, g') | Inr log_preds \<Rightarrow>
            (case py_index log_preds 0 of Inl e \<Rightarrow> (Inl e, g') | Inr log_pred \<Rightarrow>
               (let qty = expm1 log_pred;
                    qty = max 0 qty;
                    margin = unit_price req - COGS - freight_price req;
                    profit = max 0 (margin * qty)
                in (Inr \<lparr>predicted_qty = qty, predicted_profit = profit\<rparr>, g')))))))"

section \<open>The optimizer\<close>

record OptimizationResult =
  best_price :: real
  best_profit :: real
  best_qty :: real

text \<open>
  One ratio line of the loop of \<^verbatim>\<open>optimize\<close>:
  \<^verbatim>\<open>r[ratio] = p / (r[ckey] + 1e-6)\<close>, with \<open>p\<close> the candidate price.
\<close>

definition set_candidate_ratio :: "real \<Rightarrow> string \<Rightarrow> string \<Rightarrow> pydict \<Rightarrow> error + pydict" where
  "set_candidate_ratio p ratio ckey r =
     (case dict_getitem r ckey of Inl e \<Rightarrow> Inl e | Inr c \<Rightarrow>
      (case float_add c 0.000001 of Inl e \<Rightarrow> Inl e | Inr d \<Rightarrow>
       (case np_truediv p d of Inl e \<Rightarrow> Inl e | Inr q \<Rightarrow>
          Inr (dict_set r ratio q))))"

text \<open>The body of the loop: the row of one candidate price.\<close>

definition candidate_row :: "pydict \<Rightarrow> real \<Rightarrow> error + pydict" where
  "candidate_row base p =
     (let r = dict_set base ''unit_price'' (Num p) in
      (case set_candidate_ratio p ''price_ratio_comp1'' ''comp_1'' r of Inl e \<Rightarrow> Inl e | Inr r1 \<Rightarrow>
       (case set_candidate_ratio p ''price_ratio_comp2'' ''comp_2'' r1 of Inl e \<Rightarrow> Inl e | Inr r2 \<Rightarrow>
          set_candidate_ratio p ''price_ratio_comp3'' ''comp_3'' r2)))"

text \<open>The loop over the grid: rows are appended in grid order.\<close>

fun candidate_rows :: "pydict \<Rightarrow> real list \<Rightarrow> error + dataframe" where
  "candidate_rows base [] = Inr []"
| "candidate_rows base (p # ps) =
     (case candidate_row base p of Inl e \<Rightarrow> Inl e | Inr r \<Rightarrow>
      (case candidate_rows base ps of Inl e \<Rightarrow> Inl e | Inr rs \<Rightarrow> Inr (r # rs)))"

text \<open>
  \<^verbatim>\<open>df[c]\<close> read as a column of finite floats. A table built from no rows has no
  columns, so the read raises \<^verbatim>\<open>KeyError\<close>; a cell that is missing or not a finite
  number is reported as \<^verbatim>\<open>TypeError\<close> (the optimizer never stores one in the two columns
  it reads back).
\<close>

fun float_cells :: "dataframe \<Rightarrow> string \<Rightarrow> error + real list" where
  "float_cells [] c = Inr []"
| "float_cells (r # rs) c =
     (case map_of r c of
        Some (Num x) \<Rightarrow>
          (case float_cells rs c of Inl e \<Rightarrow> Inl e | Inr xs \<Rightarrow> Inr (x # xs))
      | _ \<Rightarrow> Inl TypeError)"

definition df_column :: "dataframe \<Rightarrow> string \<Rightarrow> error + real list" where
  "df_column df c =
     (if list_ex (\<lambda>r. map_of r c \<noteq> None) df then float_cells df c else Inl (KeyError c))"

text \<open>
  Lines 114 to 117: quantities from the log predictions, clipped at zero; margins from
  the table's own columns; profits by \<^verbatim>\<open>np.where(margins > 0, margins * qtys, 0.0)\<close>.
\<close>

definition quantities :: "real list \<Rightarrow> real list" where
  "quantities log_preds = map (max 0) (map expm1 log_preds)"

definition margins_of :: "real \<Rightarrow> dataframe \<Rightarrow> error + real list" where
  "margins_of COGS df =
     (case df_column df ''unit_price'' of Inl e \<Rightarrow> Inl e | Inr ups \<Rightarrow>
      (case df_column df ''freight_price'' of Inl e \<Rightarrow> Inl e | Inr fps \<Rightarrow>
         Inr (map2 (\<lambda>u f. u - COGS - f) ups fps)))"

definition profits_of :: "real list \<Rightarrow> real list \<Rightarrow> real list" where
  "profits_of margins qtys = map2 (\<lambda>mg q. if 0 < mg then mg * q else 0) margins qtys"

text \<open>
  Lines 118 to 123: the index of the best profit, and the three values read at it.
\<close>

definition select_best ::
  "real list \<Rightarrow> real list \<Rightarrow> real list \<Rightarrow> error + OptimizationResult" where
  "select_best prices profits qtys =
     (case np_argmax profits of Inl e \<Rightarrow> Inl e | Inr best_idx \<Rightarrow>
      (case py_index prices best_idx of Inl e \<Rightarrow> Inl e | Inr bp \<Rightarrow>
       (case py_index profits best_idx of Inl e \<Rightarrow> Inl e | Inr bpr \<Rightarrow>
        (case py_index qtys best_idx of Inl e \<Rightarrow> Inl e | Inr bq \<Rightarrow>
           Inr \<lparr>best_price = bp, best_profit = bpr, best_qty = bq\<rparr>))))"

text \<open>Lines 101 to 123, once the model is there.\<close>

definition scan_grid ::
  "real \<Rightarrow> model \<Rightarrow> PredictRequest \<Rightarrow> real \<Rightarrow> real \<Rightarrow> real \<Rightarrow> error + OptimizationResult" where
  "scan_grid COGS m req min_price max_price step =
     (let base = req_dict req in
      (case np_arange min_price (to_double (max_price + to_double 0.000000001)) step of
         Inl e \<Rightarrow> Inl e | Inr prices \<Rightarrow>
       (case candidate_rows base prices of Inl e \<Rightarrow> Inl e | Inr df \<Rightarrow>
        (case model_predict m df of Inl e \<Rightarrow> Inl e | Inr log_preds \<Rightarrow>
         (let qtys = quantities log_preds
          in (case margins_of COGS df of Inl e \<Rightarrow> Inl e | Inr margins \<Rightarrow>
                select_best prices (profits_of margins qtys) qtys))))))"

definition optimize ::
  "real \<Rightarrow> filesystem \<Rightarrow> globals \<Rightarrow> PredictRequest \<Rightarrow> real \<Rightarrow> real \<Rightarrow> real \<Rightarrow>
     (error + OptimizationResult) \<times> globals" where
  "optimize COGS fs g req min_price max_price step =
     (let ((model, md), g') = get_model_and_metadata fs g in
      (case model of
         None \<Rightarrow> (Inl model_not_loaded, g')
       | Some m \<Rightarrow> (scan_grid COGS m req min_price max_price step, g')))"

section \<open>The trained artifacts and the test scenarios\<close>

text \<open>
  The metadata that \<^verbatim>\<open>train.py\<close> writes: its eight numeric columns and, when the data
  has it, the one categorical column.
\<close>

definition trained_metadata :: metadata where
  "trained_metadata =
     \<lparr>num_cols = Some [''unit_price'', ''comp_1'', ''comp_2'', ''comp_3'', ''freight_price'',
                      ''price_ratio_comp1'', ''price_ratio_comp2'', ''price_ratio_comp3''],
      cat_cols = Some [''product_category_name'']\<rparr>"

text \<open>A stub model that answers the same log-quantity for every row and never raises.\<close>

definition stub_model :: "real \<Rightarrow> model" where
  "stub_model log_pred = \<lparr>rejects = (\<lambda>df. None), score = (\<lambda>row. log_pred)\<rparr>"

text \<open>
  A stub that validates its input as the trained pipeline does: it raises on a table
  without rows and on a table with a cell that is infinite or not a number.
\<close>

fun finite_cell :: "pyval \<Rightarrow> bool" where
  "finite_cell PosInf = False"
| "finite_cell NegInf = False"
| "finite_cell NaN = False"
| "finite_cell v = True"

definition validating_stub :: "real \<Rightarrow> model" where
  "validating_stub log_pred =
     \<lparr>rejects = (\<lambda>df. if df = [] then Some TypeError
                      else if list_all (\<lambda>row. list_all (\<lambda>kv. finite_cell (snd kv)) row) df
                           then None else Some ValueError),
      score = (\<lambda>row. log_pred)\<rparr>"

definition trained_files :: "model \<Rightarrow> filesystem" where
  "trained_files m = \<lparr>model_file = Content m, metadata_file = Content trained_metadata\<rparr>"

definition no_files :: filesystem where
  "no_files = \<lparr>model_file = Missing, metadata_file = Missing\<rparr>"

text \<open>The request of the end-to-end scenario.\<close>

definition scenario_request :: PredictRequest where
  "scenario_request =
     \<lparr>unit_price = 100, comp_1 = 90, comp_2 = 95, comp_3 = 105, freight_price = 10,
      product_category_name = None\<rparr>"

section \<open>The declared column layout\<close>

text \<open>
  The row layout as the specification words it, to compare \<^verbatim>\<open>make_input_df\<close> with: every
  declared numeric column, looked up with default 0, followed by every declared
  categorical column, looked up with default null, in declared order.
\<close>

definition declared_layout :: "string list \<Rightarrow> string list \<Rightarrow> pydict \<Rightarrow> pydict" where
  "declared_layout ncs ccs p =
     map (\<lambda>k. (k, case map_of p k of None \<Rightarrow> Num 0 | Some v \<Rightarrow> v)) ncs @
     map (\<lambda>c. (c, case map_of p c of None \<Rightarrow> Null | Some v \<Rightarrow> v)) ccs"

section \<open>Rounding to a double: error and exactness\<close>

lemma round_half_even_error: "\<bar>of_int (round_half_even q) - q\<bar> \<le> 1 / 2"
  unfolding round_half_even_def by (auto simp: abs_if) linarith+

lemma round_half_even_of_int: "round_half_even (of_int n) = n"
  by (simp add: round_half_even_def)


lemma to_double_error: "\<bar>to_double x - x\<bar> \<le> \<bar>x\<bar> / 2 ^ 53"
proof (cases "x = 0")
  case True
  then show ?thesis by (simp add: to_double_def)
next
  case False
  define e where "e = \<lfloor>log 2 \<bar>x\<bar>\<rfloor>"
  define u :: real where "u = 2 powr (of_int e - 52)"
  have u: "0 < u" by (simp add: u_def)
  have "to_double x = of_int (round_half_even (x / u)) * u"
    using False by (simp add: to_double_def e_def u_def)
  then have "to_double x - x = (of_int (round_half_even (x / u)) - x / u) * u"
    using u by (simp add: algebra_simps)
  then have "\<bar>to_double x - x\<bar> = \<bar>of_int (round_half_even (x / u)) - x / u\<bar> * u"
    using u by (simp add: abs_mult)
  also have "\<dots> \<le> (1 / 2) * u"
    using round_half_even_error [of "x / u"] u by (intro mult_right_mono) auto
  finally have 1: "\<bar>to_double x - x\<bar> \<le> u / 2" by simp
  have "of_int e \<le> log 2 \<bar>x\<bar>" by (simp add: e_def)
  then have "2 powr (of_int e) \<le> 2 powr (log 2 \<bar>x\<bar>)" by simp
  then have 2: "2 powr (of_int e) \<le> \<bar>x\<bar>" using False by simp
  have "u = 2 powr (of_int e) / 2 ^ 52"
    by (simp add: u_def powr_diff)
  then have "u / 2 \<le> \<bar>x\<bar> / 2 ^ 53" using 2 by (simp add: field_simps)
  with 1 show ?thesis by linarith
qed

lemma to_double_of_int:
  assumes "\<bar>n\<bar> < 2 ^ 53"
  shows "to_double (of_int n) = of_int n"
proof (cases "n = 0")
  case True
  then show ?thesis by (simp add: to_double_def)
next
  case False
  define e where "e = \<lfloor>log 2 \<bar>of_int n :: real\<bar>\<rfloor>"
  have n1: "1 \<le> \<bar>of_int n :: real\<bar>" using False by (simp flip: of_int_abs)
  have "0 \<le> log 2 \<bar>of_int n :: real\<bar>" using n1 by simp
  then have e0: "0 \<le> e" by (simp add: e_def)
  have "\<bar>of_int n :: real\<bar> < 2 ^ 53"
    using assms by (metis of_int_abs of_int_less_numeral_power_cancel_iff)
  then have "\<bar>of_int n :: real\<bar> < 2 powr 53" by simp
  then have "log 2 \<bar>of_int n :: real\<bar> < 53"
    using n1 by (subst log_less_iff) auto
  then have e52: "e \<le> 52" by (simp add: e_def floor_le_iff)
  define k where "k = nat (52 - e)"
  define u :: real where "u = 2 powr (of_int e - 52)"
  have k: "of_int e - 52 = - real k" using e52 by (simp add: k_def)
  have u: "u = 1 / 2 ^ k"
    unfolding u_def k by (simp add: powr_minus powr_realpow inverse_eq_divide)
  have "of_int n / u = of_int (n * 2 ^ k)"
    by (simp add: u)
  then have r: "round_half_even (of_int n / u) = n * 2 ^ k"
    by (simp only: round_half_even_of_int)
  have "to_double (of_int n) = of_int (round_half_even (of_int n / u)) * u"
    using False by (simp add: to_double_def e_def u_def)
  also have "\<dots> = of_int (n * 2 ^ k) * u"
    by (simp only: r)
  also have "\<dots> = of_int (n * 2 ^ k) * (1 / 2 ^ k)"
    by (simp only: u)
  also have "\<dots> = of_int n" by simp
  finally show ?thesis .
qed

lemma to_double_nonpos: "x \<le> 0 \<Longrightarrow> to_double x \<le> 0"
  using to_double_error [of x] by (simp add: abs_if field_simps split: if_splits)

lemma to_double_upper: "0 \<le> x \<Longrightarrow> to_double x \<le> x + x / 2 ^ 53"
  using to_double_error [of x] by (simp add: abs_if split: if_splits)

lemma to_double_lower: "0 \<le> x \<Longrightarrow> x - x / 2 ^ 53 \<le> to_double x"
  using to_double_error [of x] by (simp add: abs_if split: if_splits)

text \<open>The tolerance \<^verbatim>\<open>1e-9\<close> as a double.\<close>

lemma tolerance_bounds:
  "9 / 10 ^ 10 \<le> to_double 0.000000001" "to_double 0.000000001 \<le> 11 / 10 ^ 10"
  using to_double_lower [of "0.000000001"] to_double_upper [of "0.000000001"] by simp_all

text \<open>
  What is left of the tolerance in the double \<open>(max_price + 1e-9) - min_price\<close> when both
  prices are at most a million in magnitude.
\<close>

lemma tolerance_survives:
  assumes "\<bar>a\<bar> \<le> 10 ^ 6" "\<bar>b\<bar> \<le> 10 ^ 6"
  shows "b - a + 4 / 10 ^ 10 \<le> to_double (to_double (b + to_double 0.000000001) - a)"
    and "to_double (to_double (b + to_double 0.000000001) - a) \<le> b - a + 16 / 10 ^ 10"
proof -
  define t where "t = to_double 0.000000001"
  define s where "s = to_double (b + t)"
  have t: "9 / 10 ^ 10 \<le> t" "t \<le> 11 / 10 ^ 10"
    using tolerance_bounds by (simp_all add: t_def)
  have "\<bar>b + t\<bar> \<le> 10 ^ 6 + 1" using assms(2) t by (simp add: abs_if split: if_splits)
  then have "\<bar>b + t\<bar> / 2 ^ 53 \<le> (10 ^ 6 + 1) / 2 ^ 53" by (simp add: divide_right_mono)
  also have "\<dots> \<le> 2 / 10 ^ 10" by simp
  finally have "\<bar>s - (b + t)\<bar> \<le> 2 / 10 ^ 10"
    using to_double_error [of "b + t"] by (simp add: s_def)
  then have s: "b + t - 2 / 10 ^ 10 \<le> s" "s \<le> b + t + 2 / 10 ^ 10"
    by (simp_all add: abs_if split: if_splits)
  have "\<bar>s - a\<bar> \<le> 2 * 10 ^ 6 + 1"
    using assms s t by (simp add: abs_if split: if_splits)
  then have "\<bar>s - a\<bar> / 2 ^ 53 \<le> (2 * 10 ^ 6 + 1) / 2 ^ 53" by (simp add: divide_right_mono)
  also have "\<dots> \<le> 3 / 10 ^ 10" by simp
  finally have "\<bar>to_double (s - a) - (s - a)\<bar> \<le> 3 / 10 ^ 10"
    using to_double_error [of "s - a"] by simp
  then have n: "s - a - 3 / 10 ^ 10 \<le> to_double (s - a)" "to_double (s - a) \<le> s - a + 3 / 10 ^ 10"
    by (simp_all add: abs_if split: if_splits)
  show "b - a + 4 / 10 ^ 10 \<le> to_double (to_double (b + to_double 0.000000001) - a)"
    using n s t unfolding s_def t_def by simp
  show "to_double (to_double (b + to_double 0.000000001) - a) \<le> b - a + 16 / 10 ^ 10"
    using n s t unfolding s_def t_def by simp
qed

text \<open>
  The ceiling of a double quotient \<open>y / S\<close>, when \<open>y\<close> is \<open>j\<close> times \<open>S\<close> plus a remainder
  that stays clear of 0 and of \<open>S\<close>.
\<close>

lemma ceiling_to_double_quot:
  assumes "0 < S" "0 \<le> y" "y \<le> 3 * 10 ^ 6" "y = of_int j * S + t"
    and "4 / 10 ^ 10 \<le> t" "t \<le> S - 4 / 10 ^ 10"
  shows "\<lceil>to_double (y / S)\<rceil> = j + 1"
proof -
  define X where "X = y / S"
  define E where "E = 35 / 10 ^ 11 / S"
  define T where "T = t / S"
  have x: "X = of_int j + T" using assms(1,4) by (simp add: X_def T_def field_simps)
  have x0: "0 \<le> X" using assms by (simp add: X_def)
  have "y / 2 ^ 53 \<le> 3 * 10 ^ 6 / 2 ^ 53" using assms(3) by (simp add: divide_right_mono)
  also have "\<dots> \<le> 35 / 10 ^ 11" by simp
  finally have c: "y / 2 ^ 53 \<le> 35 / 10 ^ 11" .
  have S0: "0 \<le> S" using assms(1) by simp
  have "X / 2 ^ 53 = y / 2 ^ 53 / S" by (simp add: X_def)
  also have "\<dots> \<le> 35 / 10 ^ 11 / S" using c S0 by (rule divide_right_mono)
  finally have e: "X / 2 ^ 53 \<le> E" by (simp only: E_def)
  have lo: "X - X / 2 ^ 53 \<le> to_double X" using x0 by (rule to_double_lower)
  have hi: "to_double X \<le> X + X / 2 ^ 53" using x0 by (rule to_double_upper)
  have "(4 / 10 ^ 10) / S \<le> T"
    unfolding T_def using assms(5) S0 by (rule divide_right_mono)
  moreover have "E < (4 / 10 ^ 10) / S"
    unfolding E_def using assms(1) by (simp add: field_simps)
  ultimately have te: "E < T" by linarith
  have "T \<le> (S - 4 / 10 ^ 10) / S"
    unfolding T_def using assms(6) S0 by (rule divide_right_mono)
  also have "\<dots> = 1 - (4 / 10 ^ 10) / S" using assms(1) by (simp add: field_simps)
  finally have "T + (4 / 10 ^ 10) / S \<le> 1" by simp
  with \<open>E < (4 / 10 ^ 10) / S\<close> have t1: "T + E \<le> 1" by linarith
  have "of_int j < to_double X" using lo e x te by linarith
  then have 1: "of_int (j + 1) - 1 < to_double X" by simp
  have "to_double X \<le> of_int j + 1" using hi e x t1 by linarith
  then have 2: "to_double X \<le> of_int (j + 1)" by simp
  from 1 2 have "\<lceil>to_double X\<rceil> = j + 1" by (rule ceiling_unique)
  then show ?thesis by (simp only: X_def)
qed

section \<open>The grid on integer prices\<close>

lemma to_double_int_small:
  "\<bar>n\<bar> \<le> 4 * 10 ^ 6 \<Longrightarrow> to_double (of_int n) = of_int n"
  by (rule to_double_of_int) simp

lemma arange_elements_exact:
  assumes a: "\<bar>a\<bar> \<le> 10 ^ 6" and b: "\<And>i. i < n \<Longrightarrow> \<bar>int i * s\<bar> \<le> 2 * 10 ^ 6"
  shows "map (\<lambda>i. if i = 0 then of_int a
                  else if i = 1 then to_double (of_int a + of_int s)
                  else to_double (of_int a +
                         to_double (real i * to_double (to_double (of_int a + of_int s) - of_int a))))
           [0 ..< n]
       = map (\<lambda>i. of_int a + real i * of_int s) [0 ..< n]"
proof (rule map_cong [OF refl])
  fix i assume "i \<in> set [0 ..< n]"
  then have i: "i < n" by simp
  show "(if i = 0 then of_int a
         else if i = 1 then to_double (of_int a + of_int s)
         else to_double (of_int a +
                to_double (real i * to_double (to_double (of_int a + of_int s) - of_int a))))
        = of_int a + real i * of_int s"
  proof (cases "i = 0")
    case True
    then show ?thesis by simp
  next
    case False
    then have "1 < n \<or> i = 1" using i by auto
    then have "1 < n" using i by auto
    from b [OF this] have s: "\<bar>s\<bar> \<le> 2 * 10 ^ 6" by simp
    have "to_double (of_int a + of_int s) = to_double (of_int (a + s))" by simp
    also have "\<dots> = of_int (a + s)" using a s by (intro to_double_int_small) linarith
    finally have nxt: "to_double (of_int a + of_int s) = of_int a + of_int s" by simp
    have "to_double (of_int a + of_int s - of_int a) = to_double (of_int s)" by simp
    also have "\<dots> = of_int s" using s by (intro to_double_int_small) linarith
    finally have dl: "to_double (to_double (of_int a + of_int s) - of_int a) = of_int s"
      by (simp only: nxt)
    have "real i * of_int s = of_int (int i * s)" by simp
    then have "to_double (real i * of_int s) = to_double (of_int (int i * s))" by simp
    also have "\<dots> = of_int (int i * s)" using b [OF i] by (intro to_double_int_small) linarith
    finally have pr: "to_double (real i * of_int s) = real i * of_int s" by simp
    have "of_int a + real i * of_int s = of_int (a + int i * s)" by simp
    then have "to_double (of_int a + real i * of_int s) = to_double (of_int (a + int i * s))"
      by simp
    also have "\<dots> = of_int (a + int i * s)"
      using a b [OF i] by (intro to_double_int_small) linarith
    finally have el: "to_double (of_int a + real i * of_int s) = of_int a + real i * of_int s"
      by simp
    show ?thesis
    proof (cases "i = 1")
      case True
      then show ?thesis using nxt by simp
    next
      case i1: False
      have "to_double (of_int a +
              to_double (real i * to_double (to_double (of_int a + of_int s) - of_int a)))
            = to_double (of_int a + real i * of_int s)"
        by (simp only: dl pr)
      then show ?thesis using False i1 el by simp
    qed
  qed
qed

lemma arange_length_ascending:
  assumes "\<bar>a\<bar> \<le> 10 ^ 6" "\<bar>b\<bar> \<le> 10 ^ 6" "0 < s"
  shows "nat \<lceil>to_double (to_double (to_double (of_int b + to_double 0.000000001) - of_int a)
                / of_int s)\<rceil> = nat ((b - a) div s + 1)"
proof -
  define y where "y = to_double (to_double (of_int b + to_double 0.000000001) - of_int a)"
  have A: "\<bar>of_int a :: real\<bar> \<le> 10 ^ 6" "\<bar>of_int b :: real\<bar> \<le> 10 ^ 6"
    using assms(1,2) by (simp_all flip: of_int_abs)
  have lo: "of_int (b - a) + 4 / 10 ^ 10 \<le> y" and hi: "y \<le> of_int (b - a) + 16 / 10 ^ 10"
    using tolerance_survives [OF A] by (simp_all add: y_def)
  have S: "(1::real) \<le> of_int s" "(0::real) < of_int s" using assms(3) by simp_all
  show ?thesis
  proof (cases "a \<le> b")
    case True
    define j where "j = (b - a) div s"
    define r where "r = (b - a) mod s"
    have r: "0 \<le> r" "r \<le> s - 1" using assms(3) by (simp_all add: r_def)
    have d: "b - a = j * s + r" by (simp add: j_def r_def)
    then have dr: "(of_int (b - a) :: real) = of_int j * of_int s + of_int r"
      by (metis of_int_add of_int_mult)
    define t where "t = y - of_int j * of_int s"
    have rr: "(0::real) \<le> of_int r" "(of_int r :: real) \<le> of_int s - 1"
      using r by (simp_all flip: of_int_diff)
    have y0: "0 \<le> y" using lo True by (simp add: order_trans [rotated])
    have "(of_int (b - a) :: real) \<le> 2 * 10 ^ 6"
      using A by (simp add: abs_if split: if_splits)
    then have y3: "y \<le> 3 * 10 ^ 6" using hi by simp
    have yt: "y = of_int j * of_int s + t" by (simp add: t_def)
    have t1: "4 / 10 ^ 10 \<le> t" using lo dr rr unfolding t_def by linarith
    have c: "(16::real) / 10 ^ 10 + 4 / 10 ^ 10 \<le> 1" by simp
    have t2: "t \<le> of_int s - 4 / 10 ^ 10" using hi dr rr c unfolding t_def by linarith
    have "\<lceil>to_double (y / of_int s)\<rceil> = j + 1"
      using S(2) y0 y3 yt t1 t2 by (rule ceiling_to_double_quot)
    then show ?thesis by (simp add: y_def j_def)
  next
    case False
    then have "b - a \<le> - 1" by simp
    then have "(of_int (b - a) :: real) \<le> - 1" by (metis of_int_le_iff of_int_minus of_int_1)
    then have "y \<le> 0" using hi by simp
    then have "y / of_int s \<le> 0" using S(2) by (simp add: divide_le_0_iff)
    then have "to_double (y / of_int s) \<le> 0" by (rule to_double_nonpos)
    then have 1: "\<lceil>to_double (y / of_int s)\<rceil> \<le> 0" by (simp add: ceiling_le_iff)
    have "(b - a) div s < 0" using False assms(3) by (simp add: div_neg_pos_less0)
    then have 2: "(b - a) div s + 1 \<le> 0" by simp
    show ?thesis using 1 2 by (simp add: y_def)
  qed
qed


lemma arange_length_descending:
  assumes "\<bar>a\<bar> \<le> 10 ^ 6" "\<bar>b\<bar> \<le> 10 ^ 6" "0 < s"
  shows "nat \<lceil>to_double (to_double (to_double (of_int b + to_double 0.000000001) - of_int a)
                / of_int (- s))\<rceil> = nat ((a - b - 1) div s + 1)"
proof -
  define y where "y = to_double (to_double (of_int b + to_double 0.000000001) - of_int a)"
  have A: "\<bar>of_int a :: real\<bar> \<le> 10 ^ 6" "\<bar>of_int b :: real\<bar> \<le> 10 ^ 6"
    using assms(1,2) by (simp_all flip: of_int_abs)
  have lo: "of_int (b - a) + 4 / 10 ^ 10 \<le> y" and hi: "y \<le> of_int (b - a) + 16 / 10 ^ 10"
    using tolerance_survives [OF A] by (simp_all add: y_def)
  have S: "(0::real) < of_int s" using assms(3) by simp
  have q: "y / of_int (- s) = (- y) / of_int s" by simp
  have c: "(16::real) / 10 ^ 10 + 4 / 10 ^ 10 \<le> 1" by simp
  show ?thesis
  proof (cases "b < a")
    case True
    define j where "j = (a - b - 1) div s"
    define r where "r = (a - b - 1) mod s"
    have r: "0 \<le> r" "r \<le> s - 1" using assms(3) by (simp_all add: r_def)
    have "a - b - 1 = j * s + r" by (simp add: j_def r_def)
    then have "b - a = - (j * s + r + 1)" by simp
    then have dr: "(of_int (b - a) :: real) = - (of_int j * of_int s + of_int r + 1)"
      by (metis of_int_add of_int_mult of_int_minus of_int_1)
    define t where "t = - y - of_int j * of_int s"
    have rr: "(0::real) \<le> of_int r" "(of_int r :: real) \<le> of_int s - 1"
      using r by (simp_all flip: of_int_diff)
    have "0 \<le> j" using True assms(3) by (simp add: j_def pos_imp_zdiv_nonneg_iff)
    then have j0: "(0::real) \<le> of_int j * of_int s" using S by simp
    have y0: "0 \<le> - y" using hi dr rr j0 c by linarith
    have "- (2 * 10 ^ 6) \<le> (of_int (b - a) :: real)"
      using A by (simp add: abs_if split: if_splits)
    then have y3: "- y \<le> 3 * 10 ^ 6" using lo by simp
    have yt: "- y = of_int j * of_int s + t" by (simp add: t_def)
    have t1: "4 / 10 ^ 10 \<le> t" using hi dr rr c unfolding t_def by linarith
    have t2: "t \<le> of_int s - 4 / 10 ^ 10" using lo dr rr unfolding t_def by linarith
    have "\<lceil>to_double ((- y) / of_int s)\<rceil> = j + 1"
      using S y0 y3 yt t1 t2 by (rule ceiling_to_double_quot)
    then show ?thesis unfolding y_def [symmetric] q by (simp add: j_def)
  next
    case False
    then have "0 \<le> b - a" by simp
    then have "(0::real) \<le> of_int (b - a)" by (metis of_int_0_le_iff)
    then have "0 \<le> y" using lo by simp
    then have "(- y) / of_int s \<le> 0" using S by (simp add: divide_le_0_iff)
    then have "to_double ((- y) / of_int s) \<le> 0" by (rule to_double_nonpos)
    then have 1: "\<lceil>to_double ((- y) / of_int s)\<rceil> \<le> 0" by (simp add: ceiling_le_iff)
    have "(a - b - 1) div s < 0" using False assms(3) by (simp add: div_neg_pos_less0)
    then have 2: "(a - b - 1) div s + 1 \<le> 0" by simp
    show ?thesis unfolding y_def [symmetric] q using 1 2 by simp
  qed
qed

lemma np_arange_ascending_integers:
  assumes "\<bar>a\<bar> \<le> 10 ^ 6" "\<bar>b\<bar> \<le> 10 ^ 6" "0 < s"
  shows "np_arange (of_int a) (to_double (of_int b + to_double 0.000000001)) (of_int s) =
           Inr (map (\<lambda>i. of_int a + real i * of_int s) [0 ..< nat ((b - a) div s + 1)])"
proof -
  have el: "\<bar>int i * s\<bar> \<le> 2 * 10 ^ 6" if "i < nat ((b - a) div s + 1)" for i
  proof -
    have "int i \<le> (b - a) div s" using that by linarith
    then have "int i * s \<le> (b - a) div s * s" using assms(3) by (simp add: mult_right_mono)
    also have "\<dots> \<le> b - a"
      using div_mult_mod_eq [of "b - a" s] pos_mod_sign [of s "b - a"] assms(3) by linarith
    finally have "int i * s \<le> 2 * 10 ^ 6" using assms(1,2) by linarith
    moreover have "0 \<le> int i * s" using assms(3) by simp
    ultimately show ?thesis by simp
  qed
  have s0: "(of_int s :: real) \<noteq> 0" using assms(3) by simp
  show ?thesis
    unfolding np_arange_def Let_def
    using s0 arange_length_ascending [OF assms] arange_elements_exact [OF assms(1) el]
    by simp
qed

lemma np_arange_descending_integers:
  assumes "\<bar>a\<bar> \<le> 10 ^ 6" "\<bar>b\<bar> \<le> 10 ^ 6" "0 < s"
  shows "np_arange (of_int a) (to_double (of_int b + to_double 0.000000001)) (of_int (- s)) =
           Inr (map (\<lambda>i. of_int a + real i * of_int (- s))
                  [0 ..< nat ((a - b - 1) div s + 1)])"
proof -
  have el: "\<bar>int i * (- s)\<bar> \<le> 2 * 10 ^ 6" if "i < nat ((a - b - 1) div s + 1)" for i
  proof -
    have "int i \<le> (a - b - 1) div s" using that by linarith
    then have "int i * s \<le> (a - b - 1) div s * s" using assms(3) by (simp add: mult_right_mono)
    also have "\<dots> \<le> a - b - 1"
      using div_mult_mod_eq [of "a - b - 1" s] pos_mod_sign [of s "a - b - 1"] assms(3)
      by linarith
    finally have "int i * s \<le> 2 * 10 ^ 6" using assms(1,2) by linarith
    moreover have "0 \<le> int i * s" using assms(3) by simp
    ultimately show ?thesis by simp
  qed
  have s0: "(of_int (- s) :: real) \<noteq> 0" using assms(3) by simp
  show ?thesis
    unfolding np_arange_def Let_def
    using s0 arange_length_descending [OF assms] arange_elements_exact [OF assms(1) el]
    by simp
qed




lemma grid_1_5_2:
  "np_arange 1 (to_double (5 + to_double 0.000000001)) 2 = Inr [1, 3, 5]"
  using np_arange_ascending_integers [of 1 5 2] by (simp add: upt_rec)

lemma grid_2_2_1:
  "np_arange 2 (to_double (2 + to_double 0.000000001)) 1 = Inr [2]"
  using np_arange_ascending_integers [of 2 2 1] by (simp add: upt_rec)

lemma grid_10_1_1:
  "np_arange 10 (to_double (1 + to_double 0.000000001)) 1 = Inr []"
  using np_arange_ascending_integers [of 10 1 1] by simp

lemma grid_3_1_desc:
  "np_arange 3 (to_double (1 + to_double 0.000000001)) (- 1) = Inr [3, 2]"
  using np_arange_descending_integers [of 3 1 1] by (simp add: upt_rec)

lemma grid_1_10_desc:
  "np_arange 1 (to_double (10 + to_double 0.000000001)) (- 1) = Inr []"
  using np_arange_descending_integers [of 1 10 1] by simp

section \<open>The rows and margins of the grid scan\<close>

lemma candidate_row_req:
  "candidate_row (req_dict req) p =
     Inr (req_dict (req\<lparr>unit_price := p\<rparr>) @
          [(''price_ratio_comp1'', np_quot p (comp_1 req + 0.000001)),
           (''price_ratio_comp2'', np_quot p (comp_2 req + 0.000001)),
           (''price_ratio_comp3'', np_quot p (comp_3 req + 0.000001))])"
  by (simp add: candidate_row_def set_candidate_ratio_def req_dict_def dict_getitem_def)

lemma candidate_rows_req:
  "candidate_rows (req_dict req) prices =
     Inr (map (\<lambda>p. req_dict (req\<lparr>unit_price := p\<rparr>) @
          [(''price_ratio_comp1'', np_quot p (comp_1 req + 0.000001)),
           (''price_ratio_comp2'', np_quot p (comp_2 req + 0.000001)),
           (''price_ratio_comp3'', np_quot p (comp_3 req + 0.000001))]) prices)"
  by (induction prices) (simp_all add: candidate_row_req)

lemma float_cells_map:
  assumes "\<And>p. map_of (row p) c = Some (Num (f p))"
  shows "float_cells (map row prices) c = Inr (map f prices)"
  by (induction prices) (simp_all add: assms)

lemma df_column_map:
  assumes "\<And>p. map_of (row p) c = Some (Num (f p))"
  shows "df_column (map row prices) c =
           (if prices = [] then Inl (KeyError c) else Inr (map f prices))"
proof (cases prices)
  case Nil
  then show ?thesis by (simp add: df_column_def)
next
  case (Cons p ps)
  have "list_ex (\<lambda>r. map_of r c \<noteq> None) (map row prices)"
    using Cons assms by simp
  then show ?thesis
    using Cons float_cells_map [of row c f prices, OF assms] by (simp add: df_column_def)
qed

lemma map2_map_right:
  "map2 f xs (map g xs) = map (\<lambda>x. f x (g x)) xs"
  by (induction xs) simp_all

lemma margins_of_candidates:
  "margins_of COGS (map (\<lambda>p. req_dict (req\<lparr>unit_price := p\<rparr>) @
          [(''price_ratio_comp1'', q1 p), (''price_ratio_comp2'', q2 p),
           (''price_ratio_comp3'', q3 p)]) prices) =
     (if prices = [] then Inl (KeyError ''unit_price'')
      else Inr (map (\<lambda>p. p - COGS - freight_price req) prices))"
proof -
  let ?row = "\<lambda>p. req_dict (req\<lparr>unit_price := p\<rparr>) @
          [(''price_ratio_comp1'', q1 p), (''price_ratio_comp2'', q2 p),
           (''price_ratio_comp3'', q3 p)]"
  have u: "\<And>p. map_of (?row p) ''unit_price'' = Some (Num p)"
    by (simp add: req_dict_def)
  have f: "\<And>p. map_of (?row p) ''freight_price'' = Some (Num (freight_price req))"
    by (simp add: req_dict_def)
  show ?thesis
    unfolding margins_of_def
    by (simp add: df_column_map [of ?row, OF u] df_column_map [of ?row, OF f]
        map2_map_right)
qed

section \<open>The first maximum\<close>

lemma argmax_scan_spec:
  assumes "mi < length ys" "i = length ys" "mp = ys ! mi"
    and "\<forall>j<length ys. ys ! j \<le> mp" "\<forall>j<mi. ys ! j < mp"
  shows "argmax_scan xs i mp mi < length (ys @ xs)
       \<and> (\<forall>j<length (ys @ xs). (ys @ xs) ! j \<le> (ys @ xs) ! argmax_scan xs i mp mi)
       \<and> (\<forall>j<argmax_scan xs i mp mi. (ys @ xs) ! j < (ys @ xs) ! argmax_scan xs i mp mi)"
  using assms
proof (induction xs arbitrary: ys i mp mi)
  case Nil
  then show ?case by simp
next
  case (Cons x xs)
  show ?case
  proof (cases "mp < x")
    case True
    have a: "i < length (ys @ [x])" using Cons.prems by simp
    have b: "x = (ys @ [x]) ! i" using Cons.prems by simp
    have c: "\<forall>j<length (ys @ [x]). (ys @ [x]) ! j \<le> x"
      using Cons.prems True by (auto simp: nth_append less_Suc_eq intro: less_imp_le order_trans)
    have d: "\<forall>j<i. (ys @ [x]) ! j < x"
      using Cons.prems True by (auto simp: nth_append intro: le_less_trans)
    from Cons.IH [of i "ys @ [x]" "Suc i" x, OF a _ b c d] Cons.prems True
    show ?thesis by simp
  next
    case False
    have a: "mi < length (ys @ [x])" using Cons.prems by simp
    have b: "mp = (ys @ [x]) ! mi" using Cons.prems by (simp add: nth_append)
    have c: "\<forall>j<length (ys @ [x]). (ys @ [x]) ! j \<le> mp"
      using Cons.prems False by (auto simp: nth_append less_Suc_eq)
    have d: "\<forall>j<mi. (ys @ [x]) ! j < mp"
      using Cons.prems by (auto simp: nth_append)
    from Cons.IH [of mi "ys @ [x]" "Suc i" mp, OF a _ b c d] Cons.prems False
    show ?thesis by simp
  qed
qed

lemma np_argmax_spec:
  assumes "xs \<noteq> []"
  shows "\<exists>r. np_argmax xs = Inr r \<and> r < length xs
       \<and> (\<forall>j<length xs. xs ! j \<le> xs ! r) \<and> (\<forall>j<r. xs ! j < xs ! r)"
proof -
  obtain x ys where xs: "xs = x # ys" using assms by (cases xs) auto
  have "argmax_scan ys 1 x 0 < length ([x] @ ys)
       \<and> (\<forall>j<length ([x] @ ys). ([x] @ ys) ! j \<le> ([x] @ ys) ! argmax_scan ys 1 x 0)
       \<and> (\<forall>j<argmax_scan ys 1 x 0. ([x] @ ys) ! j < ([x] @ ys) ! argmax_scan ys 1 x 0)"
    by (rule argmax_scan_spec) simp_all
  then show ?thesis by (simp add: np_argmax_def xs)
qed

lemma np_argmax_empty: "np_argmax [] = Inl ValueError"
  by (simp add: np_argmax_def)

lemma select_best_spec:
  assumes "prices \<noteq> []" "length profits = length prices" "length qtys = length prices"
  shows "\<exists>r. np_argmax profits = Inr r \<and> r < length prices
       \<and> (\<forall>j<length prices. profits ! j \<le> profits ! r) \<and> (\<forall>j<r. profits ! j < profits ! r)
       \<and> select_best prices profits qtys =
           Inr \<lparr>best_price = prices ! r, best_profit = profits ! r, best_qty = qtys ! r\<rparr>"
proof -
  have "profits \<noteq> []" using assms by auto
  from np_argmax_spec [OF this] obtain r where r: "np_argmax profits = Inr r" "r < length profits"
    "\<forall>j<length profits. profits ! j \<le> profits ! r" "\<forall>j<r. profits ! j < profits ! r"
    by blast
  then show ?thesis using assms by (auto simp: select_best_def py_index_def)
qed

section \<open>The grid scan, case by case\<close>

lemma length_profits_of:
  "length (profits_of margins qtys) = min (length margins) (length qtys)"
  by (simp add: profits_of_def)

lemma length_quantities: "length (quantities lps) = length lps"
  by (simp add: quantities_def)

lemma np_arange_nonzero:
  "st \<noteq> 0 \<Longrightarrow> \<exists>prices. np_arange a b st = Inr prices"
  by (simp add: np_arange_def Let_def)

lemma scan_grid_step_zero:
  "scan_grid COGS m req mn mx 0 = Inl ZeroDivisionError"
  by (simp add: scan_grid_def np_arange_def)

lemma scan_grid_empty:
  assumes "np_arange mn (to_double (mx + to_double 0.000000001)) st = Inr []"
  shows "scan_grid COGS m req mn mx st =
     Inl (case rejects m [] of Some e \<Rightarrow> e | None \<Rightarrow> KeyError ''unit_price'')"
  unfolding scan_grid_def Let_def assms
  by (simp add: model_predict_def margins_of_def df_column_def split: option.splits)

lemma scan_grid_result:
  assumes "scan_grid COGS m req mn mx st = Inr res"
  shows "\<exists>prices df log_preds margins r.
           np_arange mn (to_double (mx + to_double 0.000000001)) st = Inr prices
         \<and> candidate_rows (req_dict req) prices = Inr df
         \<and> model_predict m df = Inr log_preds
         \<and> margins_of COGS df = Inr margins
         \<and> np_argmax (profits_of margins (quantities log_preds)) = Inr r
         \<and> r < length prices
         \<and> (\<forall>j<length prices. profits_of margins (quantities log_preds) ! j
               \<le> profits_of margins (quantities log_preds) ! r)
         \<and> (\<forall>j<r. profits_of margins (quantities log_preds) ! j
               < profits_of margins (quantities log_preds) ! r)
         \<and> res = \<lparr>best_price = prices ! r,
                   best_profit = profits_of margins (quantities log_preds) ! r,
                   best_qty = quantities log_preds ! r\<rparr>"
proof -
  from assms obtain prices df log_preds margins where
    ar: "np_arange mn (to_double (mx + to_double 0.000000001)) st = Inr prices" and
    rows: "candidate_rows (req_dict req) prices = Inr df" and
    mp: "model_predict m df = Inr log_preds" and
    mg: "margins_of COGS df = Inr margins" and
    sb: "select_best prices (profits_of margins (quantities log_preds)) (quantities log_preds)
           = Inr res"
    by (auto simp: scan_grid_def Let_def split: sum.splits)
  let ?row = "\<lambda>p. req_dict (req\<lparr>unit_price := p\<rparr>) @
          [(''price_ratio_comp1'', np_quot p (comp_1 req + 0.000001)),
           (''price_ratio_comp2'', np_quot p (comp_2 req + 0.000001)),
           (''price_ratio_comp3'', np_quot p (comp_3 req + 0.000001))]"
  have df: "df = map ?row prices" using rows by (simp add: candidate_rows_req)
  have ne: "prices \<noteq> []"
    using mg unfolding df by (auto simp: margins_of_candidates split: if_splits)
  have lm: "length margins = length prices"
    using mg ne unfolding df by (auto simp: margins_of_candidates)
  have "length log_preds = length df"
    using mp by (auto simp: model_predict_def split: option.splits)
  then have lq: "length (quantities log_preds) = length prices"
    by (simp add: length_quantities df)
  have lp: "length (profits_of margins (quantities log_preds)) = length prices"
    unfolding length_profits_of lq lm by simp
  from select_best_spec [OF ne lp lq] sb obtain r where
    "np_argmax (profits_of margins (quantities log_preds)) = Inr r" "r < length prices"
    "\<forall>j<length prices. profits_of margins (quantities log_preds) ! j
               \<le> profits_of margins (quantities log_preds) ! r"
    "\<forall>j<r. profits_of margins (quantities log_preds) ! j
               < profits_of margins (quantities log_preds) ! r"
    "res = \<lparr>best_price = prices ! r,
              best_profit = profits_of margins (quantities log_preds) ! r,
              best_qty = quantities log_preds ! r\<rparr>"
    by auto
  with ar rows mp mg show ?thesis by blast
qed

lemma scan_grid_eq:
  assumes "np_arange mn (to_double (mx + to_double 0.000000001)) st = Inr prices"
    and "prices \<noteq> []"
    and "rejects m (map (\<lambda>p. req_dict (req\<lparr>unit_price := p\<rparr>) @
             [(''price_ratio_comp1'', np_quot p (comp_1 req + 0.000001)),
              (''price_ratio_comp2'', np_quot p (comp_2 req + 0.000001)),
              (''price_ratio_comp3'', np_quot p (comp_3 req + 0.000001))]) prices) = None"
  shows "scan_grid COGS m req mn mx st =
     select_best prices
       (profits_of (map (\<lambda>p. p - COGS - freight_price req) prices)
          (quantities (map (\<lambda>p. score m (req_dict (req\<lparr>unit_price := p\<rparr>) @
             [(''price_ratio_comp1'', np_quot p (comp_1 req + 0.000001)),
              (''price_ratio_comp2'', np_quot p (comp_2 req + 0.000001)),
              (''price_ratio_comp3'', np_quot p (comp_3 req + 0.000001))])) prices)))
       (quantities (map (\<lambda>p. score m (req_dict (req\<lparr>unit_price := p\<rparr>) @
             [(''price_ratio_comp1'', np_quot p (comp_1 req + 0.000001)),
              (''price_ratio_comp2'', np_quot p (comp_2 req + 0.000001)),
              (''price_ratio_comp3'', np_quot p (comp_3 req + 0.000001))])) prices))"
  unfolding scan_grid_def Let_def
  using assms
  by (simp add: candidate_rows_req margins_of_candidates model_predict_def comp_def)

lemma optimize_loaded:
  "fst (fst (get_model_and_metadata fs g)) = Some m \<Longrightarrow>
     fst (optimize COGS fs g req mn mx st) = scan_grid COGS m req mn mx st"
  by (auto simp: optimize_def split: prod.splits)

lemma optimize_result_loaded:
  assumes "fst (optimize COGS fs g req mn mx st) = Inr res"
  shows "\<exists>m. fst (fst (get_model_and_metadata fs g)) = Some m
       \<and> scan_grid COGS m req mn mx st = Inr res"
  using assms
  by (auto simp: optimize_def model_not_loaded_def split: prod.splits option.splits)

lemma trained_files_loaded:
  "fst (fst (get_model_and_metadata (trained_files m) initial_globals)) = Some m"
  by (simp add: get_model_and_metadata_def try_load_model_def initial_globals_def
      trained_files_def)

section \<open>Unavailability\<close>

text \<open>
  C8. Whenever the load leaves no model (the model is absent after
  \<^verbatim>\<open>get_model_and_metadata\<close>), \<^verbatim>\<open>predict\<close> and \<^verbatim>\<open>optimize\<close> both answer with the
  \<^verbatim>\<open>HTTPException\<close> of status 503, whatever the request, the range and the step are: the
  request is not looked at, no feature is built and no prediction is made. The 503 is an
  exception the framework handles, not an unhandled fault.
\<close>

theorem unavailable_503:
  assumes "fst (fst (get_model_and_metadata fs g)) = None"
  shows "fst (predict COGS fs g req) = Inl (HTTPException 503 ''Model not loaded'')
       \<and> fst (optimize COGS fs g req min_price max_price step)
           = Inl (HTTPException 503 ''Model not loaded'')
       \<and> \<not> unhandled (HTTPException 503 ''Model not loaded'')"
  using assms
  by (auto simp: predict_def optimize_def model_not_loaded_def split: prod.splits option.splits)

theorem unavailable_503_witness:
  "fst (fst (get_model_and_metadata \<lparr>model_file = Missing, metadata_file = Missing\<rparr>
      initial_globals)) = None
   \<and> fst (predict 50 \<lparr>model_file = Missing, metadata_file = Missing\<rparr> initial_globals
        \<lparr>unit_price = 100, comp_1 = - 0.000001, comp_2 = 95, comp_3 = 105, freight_price = 10,
         product_category_name = None\<rparr>) = Inl (HTTPException 503 ''Model not loaded'')
   \<and> fst (optimize 50 \<lparr>model_file = Missing, metadata_file = Missing\<rparr> initial_globals
        \<lparr>unit_price = 100, comp_1 = - 0.000001, comp_2 = 95, comp_3 = 105, freight_price = 10,
         product_category_name = None\<rparr> 1 10 0) = Inl (HTTPException 503 ''Model not loaded'')"
proof -
  have h: "fst (fst (get_model_and_metadata \<lparr>model_file = Missing, metadata_file = Missing\<rparr>
      initial_globals)) = None"
    by (simp add: get_model_and_metadata_def try_load_model_def initial_globals_def)
  show ?thesis using h unavailable_503 [OF h] by simp
qed

section \<open>The optimizer's rows\<close>

text \<open>
  C5. For every grid point \<open>p\<close>, the row that \<^verbatim>\<open>optimize\<close> builds is the request's
  dictionary with \<open>p\<close> substituted as \<^verbatim>\<open>unit_price\<close>, followed by the three ratios
  \<^verbatim>\<open>price_ratio_comp1\<close>, \<^verbatim>\<open>price_ratio_comp2\<close>, \<^verbatim>\<open>price_ratio_comp3\<close>, each the NumPy
  quotient of the candidate price \<open>p\<close> by \<open>comp_i + 1e-6\<close>, which is the number
  \<open>p / (comp_i + 1e-6)\<close> whenever that denominator is not zero. The request's own
  \<^verbatim>\<open>unit_price\<close> appears nowhere in the rows.
\<close>

theorem candidate_rows_use_candidate_price:
  "candidate_rows (req_dict req) prices =
     Inr (map (\<lambda>p. req_dict (req\<lparr>unit_price := p\<rparr>) @
          [(''price_ratio_comp1'', np_quot p (comp_1 req + 0.000001)),
           (''price_ratio_comp2'', np_quot p (comp_2 req + 0.000001)),
           (''price_ratio_comp3'', np_quot p (comp_3 req + 0.000001))]) prices)
   \<and> (\<forall>p c. c + 0.000001 \<noteq> 0 \<longrightarrow> np_quot p (c + 0.000001) = Num (p / (c + 0.000001)))"
  by (simp add: candidate_rows_req np_quot_def)

theorem candidate_rows_use_candidate_price_witness:
  "candidate_rows (req_dict scenario_request) [1, 2] =
     Inr [[(''unit_price'', Num 1), (''comp_1'', Num 90), (''comp_2'', Num 95),
           (''comp_3'', Num 105), (''freight_price'', Num 10), (''product_category_name'', Null),
           (''price_ratio_comp1'', Num (1 / (90 + 0.000001))),
           (''price_ratio_comp2'', Num (1 / (95 + 0.000001))),
           (''price_ratio_comp3'', Num (1 / (105 + 0.000001)))],
          [(''unit_price'', Num 2), (''comp_1'', Num 90), (''comp_2'', Num 95),
           (''comp_3'', Num 105), (''freight_price'', Num 10), (''product_category_name'', Null),
           (''price_ratio_comp1'', Num (2 / (90 + 0.000001))),
           (''price_ratio_comp2'', Num (2 / (95 + 0.000001))),
           (''price_ratio_comp3'', Num (2 / (105 + 0.000001)))]]
   \<and> (90::real) + 0.000001 \<noteq> 0
   \<and> np_quot 2 (90 + 0.000001) = Num (2 / (90 + 0.000001))"
  using candidate_rows_use_candidate_price [of scenario_request "[1, 2]"]
  by (simp add: scenario_request_def req_dict_def np_quot_def)

text \<open>
  C10. Two \<^verbatim>\<open>optimize\<close> calls whose requests differ only in \<^verbatim>\<open>unit_price\<close> (same
  competitor prices, freight, category, range, step, files, globals and model) give the
  same outcome, result or exception, and leave the same globals: the request's
  \<^verbatim>\<open>unit_price\<close> is overwritten by the candidate price in every row before anything is
  computed from it.
\<close>

theorem optimize_ignores_request_unit_price:
  "optimize COGS fs g (req\<lparr>unit_price := u\<rparr>) min_price max_price step =
   optimize COGS fs g req min_price max_price step"
proof -
  have rows: "candidate_rows (req_dict (req\<lparr>unit_price := u\<rparr>)) prices =
        candidate_rows (req_dict req) prices" for prices
    by (simp add: candidate_rows_req)
  have scan: "scan_grid COGS m (req\<lparr>unit_price := u\<rparr>) min_price max_price step =
        scan_grid COGS m req min_price max_price step" for m
    unfolding scan_grid_def Let_def rows by (rule refl)
  show ?thesis unfolding optimize_def scan by (rule refl)
qed

section \<open>The lazy load and its cache\<close>

lemma get_cached:
  "MODEL g = Some m \<Longrightarrow> METADATA g = Some md \<Longrightarrow>
     get_model_and_metadata fs g = ((Some m, Some md), g)"
  by (simp add: get_model_and_metadata_def)

lemma get_sets_globals:
  "get_model_and_metadata fs g = (r, g') \<Longrightarrow> MODEL g' = fst r \<and> METADATA g' = snd r"
  by (auto simp: get_model_and_metadata_def case_prod_beta split: if_splits)

lemma get_repeatedly_cached:
  "MODEL g = Some m \<Longrightarrow> METADATA g = Some md \<Longrightarrow>
     get_repeatedly fss g = replicate (length fss) (Some m, Some md)"
  by (induction fss) (simp_all add: get_cached)

lemma get_reloads:
  "MODEL g = None \<or> METADATA g = None \<Longrightarrow>
     get_model_and_metadata fs g =
       (try_load_model fs,
        \<lparr>MODEL = fst (try_load_model fs), METADATA = snd (try_load_model fs)\<rparr>)"
  by (auto simp: get_model_and_metadata_def case_prod_beta)

text \<open>
  C2, as the code has it. The result is cached only once both the model and the metadata
  are loaded: from then on every call, whatever the files have become, returns that same
  pair and does not run the load sequence. While the model or the metadata is still
  \<^verbatim>\<open>None\<close>, every call runs \<^verbatim>\<open>try_load_model\<close> again and returns what it finds then.
\<close>

theorem cached_only_when_both_loaded:
  "(get_model_and_metadata fs g = ((Some m, Some md), g') \<longrightarrow>
      get_repeatedly fss g' = replicate (length fss) (Some m, Some md))
   \<and> (MODEL g = None \<or> METADATA g = None \<longrightarrow>
      get_model_and_metadata fs g =
        (try_load_model fs,
         \<lparr>MODEL = fst (try_load_model fs), METADATA = snd (try_load_model fs)\<rparr>))"
proof -
  have "get_repeatedly fss g' = replicate (length fss) (Some m, Some md)"
    if "get_model_and_metadata fs g = ((Some m, Some md), g')"
  proof -
    from get_sets_globals [OF that] have "MODEL g' = Some m" "METADATA g' = Some md"
      by simp_all
    then show ?thesis by (rule get_repeatedly_cached)
  qed
  then show ?thesis using get_reloads by blast
qed

theorem cached_only_when_both_loaded_witness:
  "get_model_and_metadata (trained_files (stub_model 0)) initial_globals =
     ((Some (stub_model 0), Some trained_metadata),
      \<lparr>MODEL = Some (stub_model 0), METADATA = Some trained_metadata\<rparr>)
   \<and> get_repeatedly [no_files, no_files]
        \<lparr>MODEL = Some (stub_model 0), METADATA = Some trained_metadata\<rparr> =
       [(Some (stub_model 0), Some trained_metadata), (Some (stub_model 0), Some trained_metadata)]
   \<and> MODEL initial_globals = None
   \<and> get_model_and_metadata no_files initial_globals =
       ((None, None), \<lparr>MODEL = None, METADATA = None\<rparr>)"
proof -
  have h: "get_model_and_metadata (trained_files (stub_model 0)) initial_globals =
     ((Some (stub_model 0), Some trained_metadata),
      \<lparr>MODEL = Some (stub_model 0), METADATA = Some trained_metadata\<rparr>)"
    by (simp add: get_model_and_metadata_def try_load_model_def initial_globals_def
        trained_files_def)
  have n: "MODEL initial_globals = None"
    by (simp add: initial_globals_def)
  have t: "try_load_model no_files = (None, None)"
    by (simp add: try_load_model_def no_files_def)
  show ?thesis
    using h n t
      cached_only_when_both_loaded [where fs = "trained_files (stub_model 0)"
        and g = initial_globals and m = "stub_model 0" and md = trained_metadata
        and g' = "\<lparr>MODEL = Some (stub_model 0), METADATA = Some trained_metadata\<rparr>"
        and fss = "[no_files, no_files]"]
      cached_only_when_both_loaded [where fs = no_files and g = initial_globals]
    by (simp add: numeral_2_eq_2)
qed

theorem absence_not_cached_counterexample:
  "get_repeatedly [no_files, trained_files (stub_model 0)] initial_globals =
     [(None, None), (Some (stub_model 0), Some trained_metadata)]
   \<and> get_repeatedly
        [\<lparr>model_file = Content (stub_model 0), metadata_file = Missing\<rparr>,
         \<lparr>model_file = Content (stub_model 1), metadata_file = Missing\<rparr>] initial_globals =
     [(Some (stub_model 0), None), (Some (stub_model 1), None)]
   \<and> score (stub_model 0) [] \<noteq> score (stub_model 1) []"
  by (simp add: get_model_and_metadata_def try_load_model_def initial_globals_def
      trained_files_def no_files_def stub_model_def)

section \<open>The ratios of the feature builder\<close>

lemma add_ratios_req:
  assumes "comp_1 req \<noteq> - 0.000001" "comp_2 req \<noteq> - 0.000001" "comp_3 req \<noteq> - 0.000001"
  shows "add_ratios (req_dict req) =
     Inr (req_dict req @
          [(''price_ratio_comp1'', Num (unit_price req / (comp_1 req + 0.000001))),
           (''price_ratio_comp2'', Num (unit_price req / (comp_2 req + 0.000001))),
           (''price_ratio_comp3'', Num (unit_price req / (comp_3 req + 0.000001)))])"
proof -
  have d: "comp_1 req + 0.000001 \<noteq> 0" "comp_2 req + 0.000001 \<noteq> 0"
    "comp_3 req + 0.000001 \<noteq> 0"
    using assms by (simp_all add: add_eq_0_iff2)
  show ?thesis
    using d
    by (simp add: add_ratios_def set_ratio_def req_dict_def dict_getitem_def py_truediv_def)
qed

lemma make_input_df_total:
  "add_ratios payload = Inr p \<Longrightarrow> \<exists>row. make_input_df g payload = Inr [row]"
  by (simp add: make_input_df_def split: option.splits)

text \<open>
  C3, as the code has it. For every request none of whose competitor prices is exactly
  \<open>-1e-6\<close> (every request with non-negative competitor prices, zero included), each
  denominator \<open>comp_i + 1e-6\<close> is nonzero, the ratio lines raise nothing and
  \<^verbatim>\<open>make_input_df\<close> returns its table; the ratios are \<open>unit_price / (comp_i + 1e-6)\<close>, and
  for \<open>comp_i = 0\<close> the ratio is \<open>unit_price / 1e-6\<close>.
\<close>

theorem ratios_epsilon_guarded:
  assumes "comp_1 req \<noteq> - 0.000001" "comp_2 req \<noteq> - 0.000001" "comp_3 req \<noteq> - 0.000001"
  shows "comp_1 req + 0.000001 \<noteq> 0 \<and> comp_2 req + 0.000001 \<noteq> 0 \<and> comp_3 req + 0.000001 \<noteq> 0
       \<and> (\<exists>p row.
             add_ratios (req_dict req) = Inr p
           \<and> p = req_dict req @
               [(''price_ratio_comp1'', Num (unit_price req / (comp_1 req + 0.000001))),
                (''price_ratio_comp2'', Num (unit_price req / (comp_2 req + 0.000001))),
                (''price_ratio_comp3'', Num (unit_price req / (comp_3 req + 0.000001)))]
           \<and> make_input_df g (req_dict req) = Inr [row]
           \<and> (comp_1 req = 0 \<longrightarrow>
                dict_getitem p ''price_ratio_comp1'' = Inr (Num (unit_price req / 0.000001)))
           \<and> (comp_2 req = 0 \<longrightarrow>
                dict_getitem p ''price_ratio_comp2'' = Inr (Num (unit_price req / 0.000001)))
           \<and> (comp_3 req = 0 \<longrightarrow>
                dict_getitem p ''price_ratio_comp3'' = Inr (Num (unit_price req / 0.000001))))"
proof -
  have d: "comp_1 req + 0.000001 \<noteq> 0" "comp_2 req + 0.000001 \<noteq> 0"
    "comp_3 req + 0.000001 \<noteq> 0"
    using assms by (simp_all add: add_eq_0_iff2)
  let ?p = "req_dict req @
               [(''price_ratio_comp1'', Num (unit_price req / (comp_1 req + 0.000001))),
                (''price_ratio_comp2'', Num (unit_price req / (comp_2 req + 0.000001))),
                (''price_ratio_comp3'', Num (unit_price req / (comp_3 req + 0.000001)))]"
  have r: "add_ratios (req_dict req) = Inr ?p"
    by (rule add_ratios_req [OF assms])
  obtain row where row: "make_input_df g (req_dict req) = Inr [row]"
    using make_input_df_total [OF r] by blast
  have z1: "dict_getitem ?p ''price_ratio_comp1'' = Inr (Num (unit_price req / 0.000001))"
    if "comp_1 req = 0"
    using that by (simp add: dict_getitem_def req_dict_def)
  have z2: "dict_getitem ?p ''price_ratio_comp2'' = Inr (Num (unit_price req / 0.000001))"
    if "comp_2 req = 0"
    using that by (simp add: dict_getitem_def req_dict_def)
  have z3: "dict_getitem ?p ''price_ratio_comp3'' = Inr (Num (unit_price req / 0.000001))"
    if "comp_3 req = 0"
    using that by (simp add: dict_getitem_def req_dict_def)
  have "\<exists>p row. add_ratios (req_dict req) = Inr p \<and> p = ?p
           \<and> make_input_df g (req_dict req) = Inr [row]
           \<and> (comp_1 req = 0 \<longrightarrow>
                dict_getitem p ''price_ratio_comp1'' = Inr (Num (unit_price req / 0.000001)))
           \<and> (comp_2 req = 0 \<longrightarrow>
                dict_getitem p ''price_ratio_comp2'' = Inr (Num (unit_price req / 0.000001)))
           \<and> (comp_3 req = 0 \<longrightarrow>
                dict_getitem p ''price_ratio_comp3'' = Inr (Num (unit_price req / 0.000001)))"
    apply (rule exI [of _ ?p])
    apply (rule exI [of _ row])
    using r row z1 z2 z3 by blast
  then show ?thesis using d by blast
qed

theorem ratios_epsilon_guarded_witness:
  "comp_1 (scenario_request\<lparr>comp_1 := 0\<rparr>) \<noteq> - 0.000001
   \<and> comp_2 (scenario_request\<lparr>comp_1 := 0\<rparr>) \<noteq> - 0.000001
   \<and> comp_3 (scenario_request\<lparr>comp_1 := 0\<rparr>) \<noteq> - 0.000001
   \<and> add_ratios (req_dict (scenario_request\<lparr>comp_1 := 0\<rparr>)) =
       Inr [(''unit_price'', Num 100), (''comp_1'', Num 0), (''comp_2'', Num 95),
            (''comp_3'', Num 105), (''freight_price'', Num 10),
            (''product_category_name'', Null),
            (''price_ratio_comp1'', Num (100 / 0.000001)),
            (''price_ratio_comp2'', Num (100 / (95 + 0.000001))),
            (''price_ratio_comp3'', Num (100 / (105 + 0.000001)))]
   \<and> (\<exists>row. make_input_df initial_globals (req_dict (scenario_request\<lparr>comp_1 := 0\<rparr>))
         = Inr [row])"
proof -
  have h1: "comp_1 (scenario_request\<lparr>comp_1 := 0\<rparr>) \<noteq> - 0.000001"
    and h2: "comp_2 (scenario_request\<lparr>comp_1 := 0\<rparr>) \<noteq> - 0.000001"
    and h3: "comp_3 (scenario_request\<lparr>comp_1 := 0\<rparr>) \<noteq> - 0.000001"
    by (simp_all add: scenario_request_def)
  from ratios_epsilon_guarded [OF h1 h2 h3, of initial_globals]
  have "add_ratios (req_dict (scenario_request\<lparr>comp_1 := 0\<rparr>)) =
       Inr [(''unit_price'', Num 100), (''comp_1'', Num 0), (''comp_2'', Num 95),
            (''comp_3'', Num 105), (''freight_price'', Num 10),
            (''product_category_name'', Null),
            (''price_ratio_comp1'', Num (100 / 0.000001)),
            (''price_ratio_comp2'', Num (100 / (95 + 0.000001))),
            (''price_ratio_comp3'', Num (100 / (105 + 0.000001)))]
   \<and> (\<exists>row. make_input_df initial_globals (req_dict (scenario_request\<lparr>comp_1 := 0\<rparr>))
         = Inr [row])"
    by (auto simp: scenario_request_def req_dict_def)
  then show ?thesis using h1 h2 h3 by blast
qed

theorem negative_epsilon_counterexample:
  "make_input_df initial_globals (req_dict (scenario_request\<lparr>comp_1 := - 0.000001\<rparr>))
     = Inl ZeroDivisionError
   \<and> fst (predict 50 (trained_files (stub_model 2)) initial_globals
        (scenario_request\<lparr>comp_1 := - 0.000001\<rparr>)) = Inl ZeroDivisionError
   \<and> unhandled ZeroDivisionError"
proof -
  have a: "add_ratios (req_dict (scenario_request\<lparr>comp_1 := - 0.000001\<rparr>))
     = Inl ZeroDivisionError"
    by (simp add: add_ratios_def set_ratio_def req_dict_def dict_getitem_def py_truediv_def
        scenario_request_def)
  have m: "make_input_df g (req_dict (scenario_request\<lparr>comp_1 := - 0.000001\<rparr>))
     = Inl ZeroDivisionError" for g
    unfolding make_input_df_def a by simp
  have g: "get_model_and_metadata (trained_files (stub_model 2)) initial_globals =
     ((Some (stub_model 2), Some trained_metadata),
      \<lparr>MODEL = Some (stub_model 2), METADATA = Some trained_metadata\<rparr>)"
    by (simp add: get_model_and_metadata_def try_load_model_def initial_globals_def
        trained_files_def)
  have p: "fst (predict 50 (trained_files (stub_model 2)) initial_globals
        (scenario_request\<lparr>comp_1 := - 0.000001\<rparr>)) = Inl ZeroDivisionError"
    unfolding predict_def g m by simp
  show ?thesis
    using m [of initial_globals] p by simp
qed

section \<open>Quantities and profits are never negative\<close>

lemma quantities_nonneg: "q \<in> set (quantities log_preds) \<Longrightarrow> 0 \<le> q"
  by (auto simp: quantities_def)

lemma profits_of_nonneg:
  assumes "\<And>q. q \<in> set qtys \<Longrightarrow> 0 \<le> q" "x \<in> set (profits_of margins qtys)"
  shows "0 \<le> x"
proof -
  from assms(2) obtain mg q where mq: "(mg, q) \<in> set (zip margins qtys)"
    and x: "x = (if 0 < mg then mg * q else 0)"
    by (auto simp: profits_of_def)
  have "0 \<le> q" using mq assms(1) by (auto dest: set_zip_rightD)
  then show ?thesis using x by simp
qed

lemma select_best_elements:
  assumes "select_best prices profits qtys = Inr res"
  shows "best_price res \<in> set prices \<and> best_profit res \<in> set profits
       \<and> best_qty res \<in> set qtys"
  using assms
  by (auto simp: select_best_def py_index_def split: sum.splits if_splits)

lemma scan_grid_result_nonneg:
  assumes "scan_grid COGS m req mn mx st = Inr res"
  shows "0 \<le> best_qty res \<and> 0 \<le> best_profit res"
proof -
  from assms obtain prices log_preds margins where
    sb: "select_best prices (profits_of margins (quantities log_preds))
           (quantities log_preds) = Inr res"
    by (auto simp: scan_grid_def Let_def split: sum.splits)
  from select_best_elements [OF sb]
  have p: "best_profit res \<in> set (profits_of margins (quantities log_preds))"
    and q: "best_qty res \<in> set (quantities log_preds)"
    by simp_all
  have "0 \<le> best_qty res" using q by (rule quantities_nonneg)
  moreover have "0 \<le> best_profit res"
    using quantities_nonneg p by (rule profits_of_nonneg)
  ultimately show ?thesis by simp
qed

lemma predict_loaded:
  assumes "fst (fst (get_model_and_metadata fs g)) = Some m"
    and "make_input_df (snd (get_model_and_metadata fs g)) (req_dict req) = Inr [row]"
  shows "fst (predict COGS fs g req) =
     (case rejects m [row] of
        Some e \<Rightarrow> Inl e
      | None \<Rightarrow>
          Inr \<lparr>predicted_qty = max 0 (expm1 (score m row)),
               predicted_profit =
                 max 0 ((unit_price req - COGS - freight_price req)
                        * max 0 (expm1 (score m row)))\<rparr>)"
  using assms
  by (auto simp: predict_def Let_def model_predict_def py_index_def
      split: prod.splits option.splits)

text \<open>
  C4. Whatever the model answers, a result of \<^verbatim>\<open>predict\<close> has a non-negative quantity and a
  non-negative profit, and so has a result of \<^verbatim>\<open>optimize\<close>; every quantity and every profit
  that \<^verbatim>\<open>optimize\<close> computes over the grid is non-negative. With the model loaded and no
  competitor price equal to \<open>-1e-6\<close>, \<^verbatim>\<open>predict\<close> builds its feature row and, unless the
  model itself raises on it, returns the quantity \<open>max(0, expm1(log_pred))\<close> and the profit
  \<open>max(0, margin * qty)\<close>, where \<open>log_pred\<close> is the model's answer on the feature row and
  \<open>margin = unit_price - COGS - freight_price\<close>.
\<close>

theorem quantities_and_profits_nonnegative:
  "(\<forall>res. fst (predict COGS fs g req) = Inr res \<longrightarrow>
       0 \<le> predicted_qty res \<and> 0 \<le> predicted_profit res)
   \<and> (fst (fst (get_model_and_metadata fs g)) = Some m
        \<and> comp_1 req \<noteq> - 0.000001 \<and> comp_2 req \<noteq> - 0.000001 \<and> comp_3 req \<noteq> - 0.000001 \<longrightarrow>
       (\<exists>row. make_input_df (snd (get_model_and_metadata fs g)) (req_dict req) = Inr [row]
          \<and> fst (predict COGS fs g req) =
              (case rejects m [row] of
                 Some e \<Rightarrow> Inl e
               | None \<Rightarrow>
                   Inr \<lparr>predicted_qty = max 0 (expm1 (score m row)),
                        predicted_profit =
                          max 0 ((unit_price req - COGS - freight_price req)
                                 * max 0 (expm1 (score m row)))\<rparr>)))
   \<and> (\<forall>q\<in>set (quantities log_preds). 0 \<le> q)
   \<and> (\<forall>x\<in>set (profits_of margins (quantities log_preds)). 0 \<le> x)
   \<and> (\<forall>res. fst (optimize COGS fs g req min_price max_price step) = Inr res \<longrightarrow>
       0 \<le> best_qty res \<and> 0 \<le> best_profit res)"
proof -
  have a: "0 \<le> predicted_qty res \<and> 0 \<le> predicted_profit res"
    if "fst (predict COGS fs g req) = Inr res" for res
    using that
    by (auto simp: predict_def Let_def model_not_loaded_def
        split: prod.splits option.splits sum.splits)
  have b: "\<exists>row. make_input_df (snd (get_model_and_metadata fs g)) (req_dict req) = Inr [row]
          \<and> fst (predict COGS fs g req) =
              (case rejects m [row] of
                 Some e \<Rightarrow> Inl e
               | None \<Rightarrow>
                   Inr \<lparr>predicted_qty = max 0 (expm1 (score m row)),
                        predicted_profit =
                          max 0 ((unit_price req - COGS - freight_price req)
                                 * max 0 (expm1 (score m row)))\<rparr>)"
    if m: "fst (fst (get_model_and_metadata fs g)) = Some m"
      and c: "comp_1 req \<noteq> - 0.000001" "comp_2 req \<noteq> - 0.000001" "comp_3 req \<noteq> - 0.000001"
  proof -
    obtain row where
      row: "make_input_df (snd (get_model_and_metadata fs g)) (req_dict req) = Inr [row]"
      using make_input_df_total [OF add_ratios_req [OF c]] by blast
    show ?thesis using row predict_loaded [OF m row] by blast
  qed
  have c: "0 \<le> q" if "q \<in> set (quantities log_preds)" for q
    using that by (rule quantities_nonneg)
  have d: "0 \<le> x" if "x \<in> set (profits_of margins (quantities log_preds))" for x
    using quantities_nonneg that by (rule profits_of_nonneg)
  have e: "0 \<le> best_qty res \<and> 0 \<le> best_profit res"
    if "fst (optimize COGS fs g req min_price max_price step) = Inr res" for res
  proof -
    from that obtain m' where "scan_grid COGS m' req min_price max_price step = Inr res"
      by (auto simp: optimize_def model_not_loaded_def split: prod.splits option.splits)
    then show ?thesis by (rule scan_grid_result_nonneg)
  qed
  show ?thesis using a b c d e by blast
qed

theorem quantities_and_profits_nonnegative_witness:
  "fst (fst (get_model_and_metadata (trained_files (stub_model (- 3))) initial_globals))
     = Some (stub_model (- 3))
   \<and> comp_1 scenario_request \<noteq> - 0.000001
   \<and> comp_2 scenario_request \<noteq> - 0.000001
   \<and> comp_3 scenario_request \<noteq> - 0.000001
   \<and> fst (predict 50 (trained_files (stub_model (- 3))) initial_globals scenario_request) =
       Inr \<lparr>predicted_qty = 0, predicted_profit = 0\<rparr>
   \<and> set (quantities [0, - 3]) = {0}
   \<and> set (profits_of [40, 40] (quantities [0, - 3])) = {0}"
proof -
  have h: "fst (fst (get_model_and_metadata (trained_files (stub_model (- 3))) initial_globals))
     = Some (stub_model (- 3))"
    by (rule trained_files_loaded)
  have c: "comp_1 scenario_request \<noteq> - 0.000001" "comp_2 scenario_request \<noteq> - 0.000001"
    "comp_3 scenario_request \<noteq> - 0.000001"
    by (simp_all add: scenario_request_def)
  have neg: "exp (- 3 :: real) - 1 \<le> 0" by simp
  from quantities_and_profits_nonnegative [where fs = "trained_files (stub_model (- 3))"
      and g = initial_globals and m = "stub_model (- 3)" and req = scenario_request
      and COGS = 50] h c
  have p: "fst (predict 50 (trained_files (stub_model (- 3))) initial_globals scenario_request) =
       Inr \<lparr>predicted_qty = 0, predicted_profit = 0\<rparr>"
    using neg by (auto simp: stub_model_def expm1_def max_def)
  have q: "quantities [0, - 3] = [0, 0]"
    using neg by (simp add: quantities_def expm1_def max_def)
  show ?thesis using h c p by (simp add: q profits_of_def)
qed

section \<open>The row in the declared column order\<close>

lemma dict_set_fresh:
  "k \<notin> fst ` set d \<Longrightarrow> dict_set d k v = d @ [(k, v)]"
  by (induction d) auto

lemma fold_dict_set_distinct:
  "distinct ks \<Longrightarrow> set ks \<inter> fst ` set d = {} \<Longrightarrow>
     fold (\<lambda>k row. dict_set row k (f k)) ks d = d @ map (\<lambda>k. (k, f k)) ks"
proof (induction ks arbitrary: d)
  case Nil
  then show ?case by simp
next
  case (Cons k ks)
  have fresh: "k \<notin> fst ` set d" using Cons.prems by auto
  have "set ks \<inter> fst ` set (d @ [(k, f k)]) = {}" using Cons.prems by auto
  with Cons.IH [of "d @ [(k, f k)]"] Cons.prems
  have "fold (\<lambda>k row. dict_set row k (f k)) ks (d @ [(k, f k)]) =
          (d @ [(k, f k)]) @ map (\<lambda>k. (k, f k)) ks"
    by simp
  then show ?case by (simp add: dict_set_fresh [OF fresh])
qed

lemma ordered_row_distinct:
  assumes "distinct (ncs @ ccs)"
  shows "ordered_row ncs ccs p = declared_layout ncs ccs p"
proof -
  have n: "fold (\<lambda>k row. dict_set row k (dict_get p k (Num 0))) ncs [] =
          map (\<lambda>k. (k, dict_get p k (Num 0))) ncs"
    using assms fold_dict_set_distinct [of ncs "[]" "\<lambda>k. dict_get p k (Num 0)"] by simp
  have "set ccs \<inter> fst ` set (map (\<lambda>k. (k, dict_get p k (Num 0))) ncs) = {}"
    using assms by (auto simp: image_iff)
  then have c: "fold (\<lambda>c row. dict_set row c (dict_get p c Null)) ccs
          (map (\<lambda>k. (k, dict_get p k (Num 0))) ncs) =
        map (\<lambda>k. (k, dict_get p k (Num 0))) ncs @ map (\<lambda>c. (c, dict_get p c Null)) ccs"
    using assms fold_dict_set_distinct [of ccs _ "\<lambda>c. dict_get p c Null"] by simp
  have "ordered_row ncs ccs p =
        map (\<lambda>k. (k, dict_get p k (Num 0))) ncs @ map (\<lambda>c. (c, dict_get p c Null)) ccs"
    by (simp only: ordered_row_def n c)
  also have "\<dots> = declared_layout ncs ccs p"
    by (simp add: declared_layout_def dict_get_def)
  finally show ?thesis .
qed

text \<open>
  C9, as the code has it. When the metadata is present and declares \<^verbatim>\<open>num_cols\<close>, and the
  declared column names (numeric, then categorical) are pairwise distinct, the row built
  by \<^verbatim>\<open>make_input_df\<close> has exactly the declared numeric columns followed by the declared
  categorical columns, in declared order; a numeric column absent from the input (the
  payload with its three ratios) holds 0, a categorical column absent from it holds null,
  and a field that is not declared is not in the row.
\<close>

theorem make_input_df_declared_layout:
  assumes "METADATA g = Some md" and "num_cols md = Some ncs"
    and "ccs = (case cat_cols md of None \<Rightarrow> [] | Some cs \<Rightarrow> cs)"
    and "distinct (ncs @ ccs)"
    and "add_ratios payload = Inr p"
  shows "make_input_df g payload = Inr [declared_layout ncs ccs p]
       \<and> map fst (declared_layout ncs ccs p) = ncs @ ccs"
  using assms
  by (simp add: make_input_df_def ordered_row_distinct declared_layout_def comp_def)

theorem make_input_df_declared_layout_witness:
  "METADATA \<lparr>MODEL = None, METADATA = Some trained_metadata\<rparr> = Some trained_metadata
   \<and> num_cols trained_metadata =
       Some [''unit_price'', ''comp_1'', ''comp_2'', ''comp_3'', ''freight_price'',
             ''price_ratio_comp1'', ''price_ratio_comp2'', ''price_ratio_comp3'']
   \<and> distinct ([''unit_price'', ''comp_1'', ''comp_2'', ''comp_3'', ''freight_price'',
             ''price_ratio_comp1'', ''price_ratio_comp2'', ''price_ratio_comp3'']
            @ [''product_category_name''])
   \<and> add_ratios [(''product_category_name'', Str ''toys''), (''comp_3'', Num 4),
         (''comp_2'', Num 3), (''comp_1'', Num 1), (''unit_price'', Num 2), (''extra'', Num 7)]
       = Inr [(''product_category_name'', Str ''toys''), (''comp_3'', Num 4),
         (''comp_2'', Num 3), (''comp_1'', Num 1), (''unit_price'', Num 2), (''extra'', Num 7),
         (''price_ratio_comp1'', Num (2 / (1 + 0.000001))),
         (''price_ratio_comp2'', Num (2 / (3 + 0.000001))),
         (''price_ratio_comp3'', Num (2 / (4 + 0.000001)))]
   \<and> make_input_df \<lparr>MODEL = None, METADATA = Some trained_metadata\<rparr>
        [(''product_category_name'', Str ''toys''), (''comp_3'', Num 4),
         (''comp_2'', Num 3), (''comp_1'', Num 1), (''unit_price'', Num 2), (''extra'', Num 7)]
       = Inr [[(''unit_price'', Num 2), (''comp_1'', Num 1), (''comp_2'', Num 3),
               (''comp_3'', Num 4), (''freight_price'', Num 0),
               (''price_ratio_comp1'', Num (2 / (1 + 0.000001))),
               (''price_ratio_comp2'', Num (2 / (3 + 0.000001))),
               (''price_ratio_comp3'', Num (2 / (4 + 0.000001))),
               (''product_category_name'', Str ''toys'')]]"
proof -
  let ?g = "\<lparr>MODEL = None, METADATA = Some trained_metadata\<rparr>"
  let ?ncs = "[''unit_price'', ''comp_1'', ''comp_2'', ''comp_3'', ''freight_price'',
             ''price_ratio_comp1'', ''price_ratio_comp2'', ''price_ratio_comp3'']"
  let ?payload = "[(''product_category_name'', Str ''toys''), (''comp_3'', Num 4),
         (''comp_2'', Num 3), (''comp_1'', Num 1), (''unit_price'', Num 2), (''extra'', Num 7)]"
  let ?p = "[(''product_category_name'', Str ''toys''), (''comp_3'', Num 4),
         (''comp_2'', Num 3), (''comp_1'', Num 1), (''unit_price'', Num 2), (''extra'', Num 7),
         (''price_ratio_comp1'', Num (2 / (1 + 0.000001))),
         (''price_ratio_comp2'', Num (2 / (3 + 0.000001))),
         (''price_ratio_comp3'', Num (2 / (4 + 0.000001)))]"
  have h1: "METADATA ?g = Some trained_metadata" by simp
  have h2: "num_cols trained_metadata = Some ?ncs" by (simp add: trained_metadata_def)
  have h3: "[''product_category_name''] =
      (case cat_cols trained_metadata of None \<Rightarrow> [] | Some cs \<Rightarrow> cs)"
    by (simp add: trained_metadata_def)
  have h4: "distinct (?ncs @ [''product_category_name''])" by simp
  have h5: "add_ratios ?payload = Inr ?p"
    by (simp add: add_ratios_def set_ratio_def dict_getitem_def py_truediv_def)
  from make_input_df_declared_layout [OF h1 h2 h3 h4 h5]
  have "make_input_df ?g ?payload =
       Inr [[(''unit_price'', Num 2), (''comp_1'', Num 1), (''comp_2'', Num 3),
               (''comp_3'', Num 4), (''freight_price'', Num 0),
               (''price_ratio_comp1'', Num (2 / (1 + 0.000001))),
               (''price_ratio_comp2'', Num (2 / (3 + 0.000001))),
               (''price_ratio_comp3'', Num (2 / (4 + 0.000001))),
               (''product_category_name'', Str ''toys'')]]"
    by (simp add: declared_layout_def)
  then show ?thesis using h1 h2 h4 h5 by blast
qed

theorem overlapping_columns_counterexample:
  "make_input_df
     \<lparr>MODEL = None,
      METADATA = Some \<lparr>num_cols = Some [''stock''], cat_cols = Some [''stock'']\<rparr>\<rparr>
     (req_dict scenario_request) = Inr [[(''stock'', Null)]]
   \<and> add_ratios (req_dict scenario_request) =
       Inr (req_dict scenario_request @
            [(''price_ratio_comp1'', Num (100 / (90 + 0.000001))),
             (''price_ratio_comp2'', Num (100 / (95 + 0.000001))),
             (''price_ratio_comp3'', Num (100 / (105 + 0.000001)))])
   \<and> declared_layout [''stock''] [''stock'']
        (req_dict scenario_request @
            [(''price_ratio_comp1'', Num (100 / (90 + 0.000001))),
             (''price_ratio_comp2'', Num (100 / (95 + 0.000001))),
             (''price_ratio_comp3'', Num (100 / (105 + 0.000001)))])
       = [(''stock'', Num 0), (''stock'', Null)]"
proof -
  have a: "add_ratios (req_dict scenario_request) =
       Inr (req_dict scenario_request @
            [(''price_ratio_comp1'', Num (100 / (90 + 0.000001))),
             (''price_ratio_comp2'', Num (100 / (95 + 0.000001))),
             (''price_ratio_comp3'', Num (100 / (105 + 0.000001)))])"
    by (simp add: add_ratios_def set_ratio_def dict_getitem_def py_truediv_def req_dict_def
        scenario_request_def)
  have m: "make_input_df
     \<lparr>MODEL = None,
      METADATA = Some \<lparr>num_cols = Some [''stock''], cat_cols = Some [''stock'']\<rparr>\<rparr>
     (req_dict scenario_request) = Inr [[(''stock'', Null)]]"
    unfolding make_input_df_def a
    by (simp add: ordered_row_def dict_get_def req_dict_def scenario_request_def)
  have d: "declared_layout [''stock''] [''stock'']
        (req_dict scenario_request @
            [(''price_ratio_comp1'', Num (100 / (90 + 0.000001))),
             (''price_ratio_comp2'', Num (100 / (95 + 0.000001))),
             (''price_ratio_comp3'', Num (100 / (105 + 0.000001)))])
       = [(''stock'', Num 0), (''stock'', Null)]"
    by (simp add: declared_layout_def req_dict_def scenario_request_def)
  show ?thesis using a m d by blast
qed

section \<open>The grid of the optimizer\<close>




section \<open>Degenerate ranges\<close>

text \<open>
  C1, as the code has it. \<^verbatim>\<open>optimize\<close> has no range check and no "invalid range"
  condition. With the model loaded, a zero step ends in \<^verbatim>\<open>ZeroDivisionError\<close>, raised by
  \<^verbatim>\<open>np.arange\<close> and unhandled. A grid without points ends in an exception as well, never
  in a result: the exception that \<^verbatim>\<open>model.predict\<close> raises on the table without rows or,
  when it raises none, the unhandled \<^verbatim>\<open>KeyError\<close> of the read of the \<^verbatim>\<open>unit_price\<close>
  column. The grid has no points for integer-valued prices of magnitude at most a
  million and an integer step when \<open>min_price\<close> is above \<open>max_price\<close> and the step is
  positive, and when \<open>min_price\<close> is at most \<open>max_price\<close> and the step is negative.
\<close>

theorem degenerate_range_outcomes:
  assumes "fst (fst (get_model_and_metadata fs g)) = Some m"
  shows "(step = 0 \<longrightarrow>
            fst (optimize COGS fs g req min_price max_price step) = Inl ZeroDivisionError)
       \<and> (np_arange min_price (to_double (max_price + to_double 0.000000001)) step = Inr [] \<longrightarrow>
            fst (optimize COGS fs g req min_price max_price step) =
              Inl (case rejects m [] of Some e \<Rightarrow> e | None \<Rightarrow> KeyError ''unit_price''))
       \<and> (\<bar>a\<bar> \<le> 10 ^ 6 \<and> \<bar>b\<bar> \<le> 10 ^ 6 \<and> 0 < s \<and> b < a \<longrightarrow>
            np_arange (of_int a) (to_double (of_int b + to_double 0.000000001)) (of_int s)
              = Inr [])
       \<and> (\<bar>a\<bar> \<le> 10 ^ 6 \<and> \<bar>b\<bar> \<le> 10 ^ 6 \<and> 0 < s \<and> a \<le> b \<longrightarrow>
            np_arange (of_int a) (to_double (of_int b + to_double 0.000000001)) (of_int (- s))
              = Inr [])
       \<and> unhandled ZeroDivisionError \<and> unhandled (KeyError ''unit_price'')"
proof -
  note opt = optimize_loaded [OF assms]
  have zero: "fst (optimize COGS fs g req min_price max_price step) = Inl ZeroDivisionError"
    if "step = 0"
    using that by (simp add: opt scan_grid_step_zero)
  have empty: "fst (optimize COGS fs g req min_price max_price step) =
              Inl (case rejects m [] of Some e \<Rightarrow> e | None \<Rightarrow> KeyError ''unit_price'')"
    if "np_arange min_price (to_double (max_price + to_double 0.000000001)) step = Inr []"
    unfolding opt using that by (rule scan_grid_empty)
  have up: "np_arange (of_int a) (to_double (of_int b + to_double 0.000000001)) (of_int s)
              = Inr []"
    if "\<bar>a\<bar> \<le> 10 ^ 6" "\<bar>b\<bar> \<le> 10 ^ 6" "0 < s" "b < a"
  proof -
    have "(b - a) div s < 0" using that(3,4) by (simp add: div_neg_pos_less0)
    then have "nat ((b - a) div s + 1) = 0" by simp
    then show ?thesis using np_arange_ascending_integers [OF that(1,2,3)] by simp
  qed
  have down: "np_arange (of_int a) (to_double (of_int b + to_double 0.000000001)) (of_int (- s))
              = Inr []"
    if "\<bar>a\<bar> \<le> 10 ^ 6" "\<bar>b\<bar> \<le> 10 ^ 6" "0 < s" "a \<le> b"
  proof -
    have "(a - b - 1) div s < 0" using that(3,4) by (simp add: div_neg_pos_less0)
    then have "nat ((a - b - 1) div s + 1) = 0" by simp
    then show ?thesis using np_arange_descending_integers [OF that(1,2,3)] by simp
  qed
  show ?thesis using zero empty up down by simp
qed

theorem degenerate_range_outcomes_witness:
  "fst (fst (get_model_and_metadata (trained_files (validating_stub 0)) initial_globals))
     = Some (validating_stub 0)
   \<and> fst (optimize 50 (trained_files (validating_stub 0)) initial_globals scenario_request 1 10 0)
       = Inl ZeroDivisionError
   \<and> \<bar>10 :: int\<bar> \<le> 10 ^ 6 \<and> \<bar>1 :: int\<bar> \<le> 10 ^ 6 \<and> (0 :: int) < 1 \<and> (1 :: int) < 10
   \<and> np_arange 10 (to_double (1 + to_double 0.000000001)) 1 = Inr []
   \<and> fst (optimize 50 (trained_files (validating_stub 0)) initial_globals scenario_request
        10 1 1) = Inl TypeError
   \<and> np_arange 1 (to_double (10 + to_double 0.000000001)) (- 1) = Inr []
   \<and> fst (optimize 50 (trained_files (validating_stub 0)) initial_globals scenario_request
        1 10 (- 1)) = Inl TypeError"
proof -
  have h: "fst (fst (get_model_and_metadata (trained_files (validating_stub 0)) initial_globals))
     = Some (validating_stub 0)"
    by (rule trained_files_loaded)
  have r: "rejects (validating_stub 0) [] = Some TypeError"
    by (simp add: validating_stub_def)
  note t = degenerate_range_outcomes [OF h, where COGS = 50 and req = scenario_request]
  have z: "fst (optimize 50 (trained_files (validating_stub 0)) initial_globals scenario_request
        1 10 0) = Inl ZeroDivisionError"
    using t [where step = 0 and min_price = 1 and max_price = 10] by simp
  have e1: "np_arange 10 (to_double (1 + to_double 0.000000001)) 1 = Inr []"
    using t [where a = 10 and b = 1 and s = 1] by simp
  have e2: "np_arange 1 (to_double (10 + to_double 0.000000001)) (- 1) = Inr []"
    using t [where a = 1 and b = 10 and s = 1] by simp
  have o1: "fst (optimize 50 (trained_files (validating_stub 0)) initial_globals scenario_request
        10 1 1) = Inl TypeError"
    using t [where step = 1 and min_price = 10 and max_price = 1] e1 r by simp
  have o2: "fst (optimize 50 (trained_files (validating_stub 0)) initial_globals scenario_request
        1 10 (- 1)) = Inl TypeError"
    using t [where step = "- 1" and min_price = 1 and max_price = 10] e2 r by simp
  show ?thesis using h z e1 e2 o1 o2 by simp
qed

theorem empty_grid_fault_counterexample:
  "fst (optimize 50 (trained_files (stub_model 0)) initial_globals scenario_request 10 1 1)
     = Inl (KeyError ''unit_price'')
   \<and> unhandled (KeyError ''unit_price'')"
proof -
  have "rejects (stub_model 0) [] = None" by (simp add: stub_model_def)
  then show ?thesis
    by (simp add: optimize_loaded [OF trained_files_loaded] scan_grid_empty [OF grid_10_1_1])
qed

section \<open>The selected grid point\<close>

text \<open>
  C7, as the code has it. Whenever \<^verbatim>\<open>optimize\<close> returns a result, its \<^verbatim>\<open>best_price\<close> is a
  point of the generated grid, the one at the first index \<open>i\<close> whose profit is maximal:
  no profit is greater, and every profit before \<open>i\<close> is strictly smaller. So among the
  grid points of maximal profit the first in grid order is selected; that is the one of
  lowest price when the grid is in ascending order and the one of highest price when the
  grid is in descending order.
\<close>

theorem best_price_first_maximal_grid_point:
  assumes "fst (optimize COGS fs g req min_price max_price step) = Inr res"
  shows "\<exists>m prices df log_preds margins i.
           fst (fst (get_model_and_metadata fs g)) = Some m
         \<and> np_arange min_price (to_double (max_price + to_double 0.000000001)) step = Inr prices
         \<and> candidate_rows (req_dict req) prices = Inr df
         \<and> model_predict m df = Inr log_preds
         \<and> margins_of COGS df = Inr margins
         \<and> i < length prices
         \<and> best_price res = prices ! i
         \<and> best_price res \<in> set prices
         \<and> best_profit res = profits_of margins (quantities log_preds) ! i
         \<and> (\<forall>j<length prices. profits_of margins (quantities log_preds) ! j \<le> best_profit res)
         \<and> (\<forall>j<i. profits_of margins (quantities log_preds) ! j < best_profit res)
         \<and> (sorted_wrt (\<le>) prices \<longrightarrow>
              (\<forall>j<length prices.
                 profits_of margins (quantities log_preds) ! j = best_profit res
                 \<longrightarrow> best_price res \<le> prices ! j))
         \<and> (sorted_wrt (\<ge>) prices \<longrightarrow>
              (\<forall>j<length prices.
                 profits_of margins (quantities log_preds) ! j = best_profit res
                 \<longrightarrow> prices ! j \<le> best_price res))"
proof -
  from optimize_result_loaded [OF assms] obtain m where
    m: "fst (fst (get_model_and_metadata fs g)) = Some m" and
    sg: "scan_grid COGS m req min_price max_price step = Inr res"
    by blast
  from scan_grid_result [OF sg] obtain prices df log_preds margins r where
    ar: "np_arange min_price (to_double (max_price + to_double 0.000000001)) step = Inr prices"
    and rows: "candidate_rows (req_dict req) prices = Inr df"
    and mp: "model_predict m df = Inr log_preds"
    and mg: "margins_of COGS df = Inr margins"
    and r: "r < length prices"
    and mx: "\<forall>j<length prices. profits_of margins (quantities log_preds) ! j
               \<le> profits_of margins (quantities log_preds) ! r"
    and first: "\<forall>j<r. profits_of margins (quantities log_preds) ! j
               < profits_of margins (quantities log_preds) ! r"
    and res: "res = \<lparr>best_price = prices ! r,
                   best_profit = profits_of margins (quantities log_preds) ! r,
                   best_qty = quantities log_preds ! r\<rparr>"
    by blast
  let ?profits = "profits_of margins (quantities log_preds)"
  have bp: "best_price res = prices ! r" and bpr: "best_profit res = ?profits ! r"
    by (simp_all add: res)
  have tie: "r \<le> j" if "?profits ! j = ?profits ! r" for j
  proof (rule ccontr)
    assume "\<not> r \<le> j"
    then have "?profits ! j < ?profits ! r" using first by simp
    then show False using that by simp
  qed
  have asc: "prices ! r \<le> prices ! j"
    if s: "sorted_wrt (\<le>) prices" and j: "j < length prices"
      and e: "?profits ! j = ?profits ! r" for j
  proof -
    have "r \<le> j" using e by (rule tie)
    then show ?thesis
      using sorted_wrt_nth_less [OF s, of r j] j by (cases "r = j") auto
  qed
  have desc: "prices ! j \<le> prices ! r"
    if s: "sorted_wrt (\<ge>) prices" and j: "j < length prices"
      and e: "?profits ! j = ?profits ! r" for j
  proof -
    have "r \<le> j" using e by (rule tie)
    then show ?thesis
      using sorted_wrt_nth_less [OF s, of r j] j by (cases "r = j") auto
  qed
  have mem: "prices ! r \<in> set prices" using r by simp
  show ?thesis
    apply (rule exI [of _ m])
    apply (rule exI [of _ prices])
    apply (rule exI [of _ df])
    apply (rule exI [of _ log_preds])
    apply (rule exI [of _ margins])
    apply (rule exI [of _ r])
    unfolding bp bpr
    using m ar rows mp mg r mem mx first asc desc by simp
qed

lemma scan_stub_1_5_2:
  "scan_grid 50 (stub_model 0) scenario_request 1 5 2
     = Inr \<lparr>best_price = 1, best_profit = 0, best_qty = 0\<rparr>"
  by (simp add: scan_grid_eq [OF grid_1_5_2] select_best_def np_argmax_def profits_of_def
      quantities_def stub_model_def expm1_def py_index_def scenario_request_def)

lemma scan_stub_3_1_desc:
  "scan_grid 50 (stub_model 0) scenario_request 3 1 (- 1)
     = Inr \<lparr>best_price = 3, best_profit = 0, best_qty = 0\<rparr>"
  by (simp add: scan_grid_eq [OF grid_3_1_desc] select_best_def np_argmax_def profits_of_def
      quantities_def stub_model_def expm1_def py_index_def scenario_request_def)

lemma scan_stub_2_2_1:
  "scan_grid 50 (stub_model 0) scenario_request 2 2 1
     = Inr \<lparr>best_price = 2, best_profit = 0, best_qty = 0\<rparr>"
  by (simp add: scan_grid_eq [OF grid_2_2_1] select_best_def np_argmax_def profits_of_def
      quantities_def stub_model_def expm1_def py_index_def scenario_request_def)

theorem best_price_first_maximal_grid_point_witness:
  "fst (optimize 50 (trained_files (stub_model 0)) initial_globals scenario_request 1 5 2)
     = Inr \<lparr>best_price = 1, best_profit = 0, best_qty = 0\<rparr>
   \<and> (\<exists>prices.
         np_arange 1 (to_double (5 + to_double 0.000000001)) 2 = Inr prices
       \<and> best_price \<lparr>best_price = 1, best_profit = 0, best_qty = 0\<rparr> \<in> set prices)"
proof -
  have h: "fst (optimize 50 (trained_files (stub_model 0)) initial_globals scenario_request
      1 5 2) = Inr \<lparr>best_price = 1, best_profit = 0, best_qty = 0\<rparr>"
    by (simp add: optimize_loaded [OF trained_files_loaded] scan_stub_1_5_2)
  from best_price_first_maximal_grid_point [OF h]
  have "\<exists>prices.
         np_arange 1 (to_double (5 + to_double 0.000000001)) 2 = Inr prices
       \<and> best_price \<lparr>best_price = 1, best_profit = 0, best_qty = 0\<rparr> \<in> set prices"
    by blast
  with h show ?thesis by blast
qed

theorem descending_tie_counterexample:
  "np_arange 3 (to_double (1 + to_double 0.000000001)) (- 1) = Inr [3, 2]
   \<and> fst (optimize 50 (trained_files (stub_model 0)) initial_globals scenario_request 3 1 (- 1))
       = Inr \<lparr>best_price = 3, best_profit = 0, best_qty = 0\<rparr>
   \<and> fst (optimize 50 (trained_files (stub_model 0)) initial_globals scenario_request 2 2 1)
       = Inr \<lparr>best_price = 2, best_profit = 0, best_qty = 0\<rparr>"
  using grid_3_1_desc scan_stub_3_1_desc scan_stub_2_2_1
  by (simp add: optimize_loaded [OF trained_files_loaded])

end
